theory Spec2Isabelle
  imports Main "HOL-Library.Sublist" "HOL-Library.Word"
begin

section \<open>The two template files\<close>

text \<open>
  The repository holds two files: the C source template
  \<^verbatim>\<open>code-templates/c/CODE-C-001-C-source.c\<close> and the C header template
  \<^verbatim>\<open>compiler-templates/c/c-header.h\<close>. Both are embedded here in full, as the list of
  their lines, each line paired with its 1-based line number. A line is the sequence of its
  bytes without the terminating newline; the files are UTF-8, so a box-drawing character
  or an arrow is three bytes. The bytes outside printable ASCII, the backslash and the
  apostrophe have names; everything else is written as a string literal. The C file has
  1194 lines and 52433 bytes, the header 989 lines and 45314 bytes; each file is cut into
  pieces of fifty lines.
\<close>

type_synonym line = "nat \<times> string"

abbreviation (input) box_double :: string where
  "box_double \<equiv> [CHR 0xE2, CHR 0x95, CHR 0x90]"

abbreviation (input) box_light :: string where
  "box_light \<equiv> [CHR 0xE2, CHR 0x94, CHR 0x80]"

abbreviation (input) box_tee :: string where
  "box_tee \<equiv> [CHR 0xE2, CHR 0x94, CHR 0x9C]"

abbreviation (input) box_corner :: string where
  "box_corner \<equiv> [CHR 0xE2, CHR 0x94, CHR 0x94]"

abbreviation (input) arrow_right :: string where
  "arrow_right \<equiv> [CHR 0xE2, CHR 0x86, CHR 0x92]"

abbreviation (input) arrow_down :: string where
  "arrow_down \<equiv> [CHR 0xE2, CHR 0x86, CHR 0x93]"

abbreviation (input) plus_minus :: string where
  "plus_minus \<equiv> [CHR 0xC2, CHR 0xB1]"

abbreviation (input) check_button :: string where
  "check_button \<equiv> [CHR 0xE2, CHR 0x9C, CHR 0x85]"

abbreviation (input) warning_sign :: string where
  "warning_sign \<equiv> [CHR 0xE2, CHR 0x9A, CHR 0xA0]"

abbreviation (input) variation_16 :: string where
  "variation_16 \<equiv> [CHR 0xEF, CHR 0xB8, CHR 0x8F]"

abbreviation (input) cross_mark :: string where
  "cross_mark \<equiv> [CHR 0xE2, CHR 0x9D, CHR 0x8C]"

abbreviation (input) check_mark :: string where
  "check_mark \<equiv> [CHR 0xE2, CHR 0x9C, CHR 0x93]"

abbreviation (input) hourglass :: string where
  "hourglass \<equiv> [CHR 0xE2, CHR 0x8F, CHR 0xB3]"

abbreviation (input) tab :: string where
  "tab \<equiv> [CHR 0x09]"

abbreviation (input) backslash :: string where
  "backslash \<equiv> [CHR 0x5C]"

abbreviation (input) apostrophe :: string where
  "apostrophe \<equiv> [CHR 0x27]"

abbreviation (input) box_light8 :: string where
  "box_light8 \<equiv> box_light @ box_light @ box_light @ box_light @ box_light @ box_light @ box_light @ box_light"

abbreviation (input) box_double8 :: string where
  "box_double8 \<equiv> box_double @ box_double @ box_double @ box_double @ box_double @ box_double @ box_double @ box_double"

abbreviation (input) light_rule :: string where
  "light_rule \<equiv> ''// '' @ box_light8 @ box_light8 @ box_light8 @ box_light8 @ box_light8 @ box_light8 @ box_light8 @ box_light8"

abbreviation (input) double_rule :: string where
  "double_rule \<equiv> ''// '' @ box_double8 @ box_double8 @ box_double8 @ box_double8 @ box_double8 @ box_double8 @ box_double8 @ box_double8"

abbreviation (input) banner_rule :: string where
  "banner_rule \<equiv> ''// '' @ box_double8 @ box_double8 @ box_double8 @ box_double8 @ box_double8 @ box_double8 @ box_double8 @ box_double8 @ box_double8 @ box_double @ box_double @ box_double"

abbreviation (input) block_rule :: string where
  "block_rule \<equiv> ''// ============================================================================''"

definition c_source_0001 :: "line list" where
  "c_source_0001 =
    [(1, banner_rule),
     (2, ''// TEMPLATE: C Source File (4-Block Structure)''),
     (3, ''// Key: CODE-C-001''),
     (4, banner_rule),
     (5, ''//''),
     (6, ''// DEPENDENCY CLASSIFICATION: [PURE/DEPENDED] ([deps if DEPENDED])''),
     (7, ''//   - PURE: Standard library only - no internal project dependencies''),
     (8, ''//   - DEPENDED: Needs internal headers - list them: (needs: header1.h, header2.h)''),
     (9, ''//''),
     (10, ''// This is a TEMPLATE file - copy and modify for new C source files.''),
     (11, ''// Replace all [bracketed] placeholders with actual content.''),
     (12, ''// Rename to appropriate name (e.g., main.c, module.c).''),
     (13, ''//''),
     (14, ''// Derived from: templates/code/go/CODE-GO-001-GO-executable.go''),
     (15, ''// See: standards/code/4-block/ for complete documentation''),
     (16, ''//''),
     (17, banner_rule),
     (18, []),
     (19, ''// [brief description of what this source file implements].''),
     (20, ''//''),
     (21, ''// [Executable Name] - CPI-SI [Project/System Name]''),
     (22, ''//''),
     (23, ''// For METADATA structure explanation, see: standards/code/4-block/CWS-STD-004-CODE-metadata-block.md''),
     (24, ''//''),
     (25, ''// # Biblical Foundation''),
     (26, ''//''),
     (27, ''// Scripture: [Relevant verse grounding this executable's purpose]''),
     (28, ''//''),
     (29, ''// Principle: [Kingdom principle this executable demonstrates]''),
     (30, ''//''),
     (31, ''// Anchor: [Supporting verse reinforcing the principle]''),
     (32, ''//''),
     (33, ''// # CPI-SI Identity''),
     (34, ''//''),
     (35, ''// Component Type: [Ladder/Baton/Rails - see CWS-STD-004 for explanations]''),
     (36, ''//''),
     (37, ''// Role: [Specific responsibility in system architecture]''),
     (38, ''//''),
     (39, ''// Paradigm: CPI-SI framework component''),
     (40, ''//''),
     (41, ''// # Authorship & Lineage''),
     (42, ''//''),
     (43, ''//   - Architect: [Who designed the approach and requirements]''),
     (44, ''//   - Implementation: [Who wrote the code and verified it works]''),
     (45, ''//   - Created: [YYYY-MM-DD]''),
     (46, ''//   - Version: [MAJOR.MINOR.PATCH]''),
     (47, ''//   - Modified: [YYYY-MM-DD - what changed]''),
     (48, ''//''),
     (49, ''// Version History:''),
     (50, ''//'')]"

definition c_source_0051 :: "line list" where
  "c_source_0051 =
    [(51, ''//   - [X.Y.Z] ([YYYY-MM-DD]) - [Brief description of changes]''),
     (52, ''//   - [X.Y.Z] ([YYYY-MM-DD]) - [Brief description of changes]''),
     (53, ''//''),
     (54, ''// # Purpose & Function''),
     (55, ''//''),
     (56, ''// Purpose: [What problem does this executable solve?]''),
     (57, ''//''),
     (58, ''// Core Design: [Architectural pattern or paradigm]''),
     (59, ''//''),
     (60, ''// Key Features:''),
     (61, ''//''),
     (62, ''//   - [What it provides - major capabilities]''),
     (63, ''//   - [What it enables - what others can build with this]''),
     (64, ''//   - [What problems it solves - specific use cases]''),
     (65, ''//''),
     (66, ''// Philosophy: [Guiding principle for how this executable works]''),
     (67, ''//''),
     (68, ''// # Blocking Status''),
     (69, ''//''),
     (70, ''// [Blocking/Non-blocking]: [Brief explanation]''),
     (71, ''//''),
     (72, ''// Mitigation: [How blocking/failures handled]''),
     (73, ''//''),
     (74, ''// # Usage & Integration''),
     (75, ''//''),
     (76, ''// Command Line:''),
     (77, ''//''),
     (78, ''//'' @ tab @ ''[executable-name] [args]        [Brief description]''),
     (79, ''//'' @ tab @ ''[executable-name] --help        Show usage''),
     (80, ''//''),
     (81, ''// Exit Codes:''),
     (82, ''//''),
     (83, ''//'' @ tab @ ''0  - Success''),
     (84, ''//'' @ tab @ ''1  - General error''),
     (85, ''//'' @ tab @ ''2  - Usage/argument error''),
     (86, ''//'' @ tab @ ''[N] - [Specific error meaning]''),
     (87, ''//''),
     (88, ''// # Dependencies''),
     (89, ''//''),
     (90, ''// What This Needs:''),
     (91, ''//''),
     (92, ''//   - Standard Library: [list standard packages]''),
     (93, ''//   - External: [None | list external packages with versions]''),
     (94, ''//   - Internal: [project packages this depends on]''),
     (95, ''//''),
     (96, ''// What Uses This:''),
     (97, ''//''),
     (98, ''//   - Commands: [list commands]''),
     (99, ''//   - Libraries: [list libraries]''),
     (100, ''//   - Tools: [list tools]'')]"

definition c_source_0101 :: "line list" where
  "c_source_0101 =
    [(101, ''//''),
     (102, ''// Integration Points:''),
     (103, ''//''),
     (104, ''//   - [How other systems connect - Rails/Ladder/Baton mechanism]''),
     (105, ''//   - [Cross-component interactions]''),
     (106, ''//   - [Data flow or protocol integration]''),
     (107, ''//''),
     (108, ''// # Health Scoring''),
     (109, ''//''),
     (110, ''// System: [Base100 with 1-point granular scale from -100 to +100]''),
     (111, ''//''),
     (112, ''// States: [Granted (>+50), Deferred ('' @ plus_minus @ ''50), Denied (<-50)]''),
     (113, ''//''),
     (114, ''// [Operation Category]:''),
     (115, ''//''),
     (116, ''//   - [Specific operation]: '' @ plus_minus @ ''X points''),
     (117, ''//   - [Another operation]: '' @ plus_minus @ ''Y points''),
     (118, ''//''),
     (119, ''// Cascade Multipliers: [If applicable - describe categories and multipliers]''),
     (120, ''//''),
     (121, ''//   - [Category]: [X]x ([brief rationale])''),
     (122, ''//''),
     (123, ''// See: [Reference to detailed health scoring documentation]''),
     (124, ''//''),
     (125, ''// Note: Scores reflect TRUE impact. Health scorer normalizes to -100 to +100 scale.''),
     (126, ''//''),
     (127, ''// METADATA Omission Guide:''),
     (128, ''//   - Dependency Safety: Include for Rails (signals verified), omit for Ladder/Baton''),
     (129, ''//   - Cascade Multipliers: Include if operations cascade differently, omit if uniform''),
     (130, ''//   - States: Include if component makes state decisions, omit if pure pass-through''),
     (131, ''//   - Health Scoring Variations:''),
     (132, ''//       * Config Provider: Provides health config, doesn't track own (use brief note)''),
     (133, ''//       * Health Tracker: Full scoring with System/States/Operations''),
     (134, ''//       * Pass-through: No health impact (omit or brief note)''),
     (135, ''//   - Unlike SETUP (all sections required), METADATA omission signals component characteristics''),
     (136, []),
     (137, block_rule),
     (138, ''// END METADATA''),
     (139, block_rule),
     (140, []),
     (141, block_rule),
     (142, ''// SETUP''),
     (143, block_rule),
     (144, ''//''),
     (145, ''// For SETUP structure explanation, see: standards/code/4-block/CWS-STD-006-CODE-setup-block.md''),
     (146, ''//''),
     (147, ''// Section order: Includes '' @ arrow_right @ '' Defines '' @ arrow_right @ '' Types '' @ arrow_right @ '' Static Variables '' @ arrow_right @ '' Function Prototypes''),
     (148, ''// This flows: dependencies '' @ arrow_right @ '' constants '' @ arrow_right @ '' data model '' @ arrow_right @ '' state '' @ arrow_right @ '' declarations''),
     (149, ''//''),
     (150, ''// Why this order: C requires declarations before use.'')]"

definition c_source_0151 :: "line list" where
  "c_source_0151 =
    [(151, ''// Headers provide type definitions and function declarations, source files implement.''),
     (152, ''//   - Includes bring in headers with type definitions and prototypes''),
     (153, ''//   - Constants/Variables are executable-specific configuration''),
     (154, ''//   - Types are minimal - just what's unique to this executable (arg parsing, etc.)''),
     (155, ''//''),
     (156, ''// IMPORTANT: All sections MUST be present, even if empty or reserved.''),
     (157, ''// A lean section comment is better than absence. Why:''),
     (158, ''//   - Consistent structure across all files (navigation)''),
     (159, ''//   - Clear extension points (where to add when needed)''),
     (160, ''//   - Intentional vs forgotten (a reserved section is deliberate)''),
     (161, ''//''),
     (162, ''// For empty sections, use: // [Reserved: Brief reason why not needed]''),
     (163, []),
     (164, light_rule),
     (165, ''// Includes''),
     (166, light_rule),
     (167, ''//''),
     (168, ''// Dependencies this component needs. Organized by source - standard library''),
     (169, ''// provides C's built-in capabilities, project headers provide specific''),
     (170, ''// functionality. Each include commented with purpose, not just name.''),
     (171, ''//''),
     (172, ''// See: standards/code/4-block/sections/setup/CWS-SECTION-SETUP-001-imports.md''),
     (173, []),
     (174, ''//--- Standard Library ---''),
     (175, ''// Foundation headers providing C's built-in capabilities.''),
     (176, ''// Why stdlib: Stability, portability, if C works this works.''),
     (177, []),
     (178, ''// #include <stdio.h>      // Standard I/O for [purpose]''),
     (179, ''// #include <stdlib.h>     // Memory allocation, conversion, exit()''),
     (180, ''// #include <string.h>     // String manipulation for [purpose]''),
     (181, ''// #include <stdint.h>     // Fixed-width integer types''),
     (182, ''// #include <stdbool.h>    // Boolean type (C99+)''),
     (183, []),
     (184, ''//--- Project Headers ---''),
     (185, ''// Project-specific headers showing architectural dependencies.''),
     (186, ''// Why internal: Shared functionality within project boundary.''),
     (187, []),
     (188, ''// #include \"[header].h\"           // [Purpose within project]''),
     (189, ''// #include \"../[path]/[header].h\" // [Shared library purpose]''),
     (190, []),
     (191, ''//--- External Libraries ---''),
     (192, ''// Third-party dependencies (use sparingly - each adds risk).''),
     (193, ''// Why external: [Justify what stdlib lacks that requires this dependency]''),
     (194, ''//''),
     (195, ''// [Reserved: Currently none - foundational component uses standard library only]''),
     (196, []),
     (197, ''// #include <[external].h>  // [Justification for external dependency]''),
     (198, []),
     (199, light_rule),
     (200, ''// Defines (Constants)'')]"

definition c_source_0201 :: "line list" where
  "c_source_0201 =
    [(201, light_rule),
     (202, ''//''),
     (203, ''// Named values that never change. Magic numbers given meaningful names,''),
     (204, ''// configuration values documented with reasoning. Defines prevent bugs''),
     (205, ''// from typos and make intent clear.''),
     (206, ''//''),
     (207, ''// Defines come BEFORE Types in C because they're preprocessor directives''),
     (208, ''// that must be available before type definitions that might use them.''),
     (209, ''//''),
     (210, ''// See: standards/code/4-block/sections/setup/CWS-SECTION-SETUP-002-constants.md''),
     (211, []),
     (212, ''//--- [Category Name] Constants ---''),
     (213, ''// [Brief explanation of this group and their purpose]''),
     (214, []),
     (215, ''// // [CONSTANT_NAME] [brief description].''),
     (216, ''// //''),
     (217, ''// // Set to [value] based on [reasoning]. Higher values risk [problem],''),
     (218, ''// // lower values cause [problem].''),
     (219, ''// #define [CONSTANT_NAME] [value]  // [Inline context if needed]''),
     (220, ''//''),
     (221, ''// // [ANOTHER_CONSTANT] [brief description].''),
     (222, ''// #define [ANOTHER_CONSTANT] [value]''),
     (223, []),
     (224, ''//--- Defaults ---''),
     (225, ''// Default values for optional configuration. Zero values should be sensible.''),
     (226, []),
     (227, ''// // DEFAULT_[THING] is used when [Thing] not explicitly configured.''),
     (228, ''// #define DEFAULT_[THING] [value]''),
     (229, []),
     (230, light_rule),
     (231, ''// Static Variables''),
     (232, light_rule),
     (233, ''//''),
     (234, ''// File-level mutable state. Use sparingly - prefer constants for fixed''),
     (235, ''// values and function parameters for dynamic behavior. Static variables here''),
     (236, ''// are typically: state tracking, caches, or configuration that changes at runtime.''),
     (237, ''//''),
     (238, ''// Static variables in C are file-scoped (internal linkage) when declared''),
     (239, ''// outside functions. Use 'static' keyword to limit visibility to this file.''),
     (240, ''//''),
     (241, ''// See: standards/code/4-block/sections/setup/CWS-SECTION-SETUP-003-variables.md''),
     (242, []),
     (243, ''//--- State Variables ---''),
     (244, ''// Variables tracking component state.''),
     (245, ''// Pattern: Initialize to safe defaults, modify through functions.''),
     (246, []),
     (247, ''// // [variable_name] [brief description].''),
     (248, ''// //''),
     (249, ''// // Default: [value]. Valid range: [min] to [max].''),
     (250, ''// // Modified by: [what changes this - functions, initialization]'')]"

definition c_source_0251 :: "line list" where
  "c_source_0251 =
    [(251, ''// // Thread-safety: [safe/unsafe - describe synchronization if any]''),
     (252, ''// static [type] [variable_name] = [default_value];''),
     (253, []),
     (254, ''//--- Configuration State ---''),
     (255, ''// Runtime-modifiable settings. Document default values and valid ranges.''),
     (256, []),
     (257, ''// // [config_var] controls [behavior].''),
     (258, ''// //''),
     (259, ''// // Default: [value]. Valid range: [min] to [max].''),
     (260, ''// // Modified by: [what changes this - flags, environment, API calls]''),
     (261, ''// static [type] [config_var] = [default_value];''),
     (262, []),
     (263, light_rule),
     (264, ''// Types''),
     (265, light_rule),
     (266, ''//''),
     (267, ''// Data structures organized bottom-up: simple building blocks first,''),
     (268, ''// then composed structures. This organization reveals dependencies.''),
     (269, ''//''),
     (270, ''// Types come AFTER Defines/Variables in C because they may depend on''),
     (271, ''// constants defined earlier. Use typedef for cleaner type names.''),
     (272, ''//''),
     (273, ''// See: standards/code/4-block/sections/setup/CWS-SECTION-SETUP-004-types.md''),
     (274, []),
     (275, ''//--- Enumerations ---''),
     (276, ''// Named constants for related values.''),
     (277, ''// Use typedef for cleaner usage.''),
     (278, []),
     (279, ''// // [EnumName] represents [what this models].''),
     (280, ''// typedef enum {''),
     (281, ''//     [ENUM_VALUE_1],  // [meaning]''),
     (282, ''//     [ENUM_VALUE_2],  // [meaning]''),
     (283, ''//     [ENUM_VALUE_3]   // [meaning]''),
     (284, ''// } [EnumName];''),
     (285, []),
     (286, ''//--- Building Blocks ---''),
     (287, ''// Simple foundational types used throughout this component.''),
     (288, ''// These are the atoms - other types compose from these.''),
     (289, []),
     (290, ''// // [TypeName] represents [what this models].''),
     (291, ''// //''),
     (292, ''// // [2-4 sentences: what it represents, when used, key constraints]''),
     (293, ''// //''),
     (294, ''// // Fields:''),
     (295, ''// //   - [field_name]: [purpose and meaning]''),
     (296, ''// //   - [field_name]: [purpose, units if applicable, constraints]''),
     (297, ''// //''),
     (298, ''// // Example:''),
     (299, ''// //   [TypeName] t = { .[field] = [value] };''),
     (300, ''// typedef struct {'')]"

definition c_source_0301 :: "line list" where
  "c_source_0301 =
    [(301, ''//     [type] [field_name];  // [Inline explanation]''),
     (302, ''//     [type] [field_name];  // [Inline explanation]''),
     (303, ''// } [TypeName];''),
     (304, []),
     (305, ''//--- Composed Types ---''),
     (306, ''// Complex types built from building blocks above.''),
     (307, ''// Document the composition relationship explicitly.''),
     (308, []),
     (309, ''// // [ComposedType] combines [building blocks] to represent [concept].''),
     (310, ''// //''),
     (311, ''// // [Explain relationships: why these pieces go together, what''),
     (312, ''// // higher-level functionality they create together]''),
     (313, ''// //''),
     (314, ''// // Fields:''),
     (315, ''// //   - [field_name]: [purpose]''),
     (316, ''// //   - [block_field]: Uses [BuildingBlock] for [reason]''),
     (317, ''// typedef struct {''),
     (318, ''//     [type] [field_name];        // [Purpose]''),
     (319, ''//     [BuildingBlock] [block_field];  // Composition from above''),
     (320, ''// } [ComposedType];''),
     (321, []),
     (322, ''//--- Configuration Types ---''),
     (323, ''// Options and settings passed to functions.''),
     (324, ''// Zero-initialized values should provide sensible defaults.''),
     (325, []),
     (326, ''// // [Config] holds configuration options for [component].''),
     (327, ''// //''),
     (328, ''// // Zero-initialized values are sensible defaults.''),
     (329, ''// //''),
     (330, ''// // Fields:''),
     (331, ''// //   - [field]: [purpose] (default: 0/NULL)''),
     (332, ''// typedef struct {''),
     (333, ''//     [type] [field];  // [Purpose] (default: [zero value behavior])''),
     (334, ''// } [Config];''),
     (335, []),
     (336, light_rule),
     (337, ''// Function Prototypes''),
     (338, light_rule),
     (339, ''//''),
     (340, ''// Forward declarations of functions defined in BODY. C requires''),
     (341, ''// declarations before use - prototypes enable calling functions''),
     (342, ''// before their full definition appears.''),
     (343, ''//''),
     (344, ''// See: standards/code/4-block/sections/setup/CWS-SECTION-SETUP-005-type-methods.md''),
     (345, ''//''),
     (346, ''// Key distinction:''),
     (347, ''//   - SETUP prototypes: Declarations only (return type, name, parameters)''),
     (348, ''//   - BODY functions: Full implementations with business logic''),
     (349, []),
     (350, ''//--- Helper Function Prototypes ---'')]"

definition c_source_0351 :: "line list" where
  "c_source_0351 =
    [(351, ''// Internal utility functions used by this file.''),
     (352, []),
     (353, ''// // [function_name] [brief description].''),
     (354, ''// static [return_type] [function_name]([param_type] [param_name]);''),
     (355, []),
     (356, ''//--- Core Operation Prototypes ---''),
     (357, ''// Main business logic functions.''),
     (358, []),
     (359, ''// // [function_name] [brief description].''),
     (360, ''// static [return_type] [function_name]([param_type] [param_name]);''),
     (361, []),
     (362, ''//--- Public Function Prototypes ---''),
     (363, ''// Functions exposed to other files (not static).''),
     (364, ''// Note: For larger projects, these belong in header files.''),
     (365, []),
     (366, ''// // [function_name] [brief description].''),
     (367, ''// [return_type] [function_name]([param_type] [param_name]);''),
     (368, []),
     (369, light_rule),
     (370, ''// File-Level State (Rails Pattern)''),
     (371, light_rule),
     (372, ''//''),
     (373, ''// Infrastructure available throughout component. Rails pattern - each''),
     (374, ''// component creates own logger independently without parameter passing.''),
     (375, ''// This is orthogonal infrastructure that all components attach to directly.''),
     (376, ''//''),
     (377, ''// See: standards/code/patterns/CWS-PATTERN-003-CODE-rails.md''),
     (378, ''// See: standards/code/4-block/sections/setup/CWS-SECTION-SETUP-006-package-level-state.md''),
     (379, ''//''),
     (380, ''// Note: Not all libraries need Rails infrastructure. Simple pure-function''),
     (381, ''// libraries may skip this section entirely.''),
     (382, []),
     (383, ''//--- Rails Infrastructure ---''),
     (384, ''// File-level logger and inspector for this component.''),
     (385, ''// Each component creates own infrastructure attachment independently.''),
     (386, []),
     (387, ''// // component_logger provides health tracking throughout this component.''),
     (388, ''// //''),
     (389, ''// // All functions in this file use this for health scoring and''),
     (390, ''// // event recording. Initialized in initialization function.''),
     (391, ''// static Logger* component_logger = NULL;''),
     (392, ''//''),
     (393, ''// // component_inspector provides detailed state inspection for debugging.''),
     (394, ''// //''),
     (395, ''// // Enabled by default for development visibility. Can be toggled at''),
     (396, ''// // runtime for production environments.''),
     (397, ''// static Inspector* component_inspector = NULL;''),
     (398, []),
     (399, ''//--- Initialization Function ---''),
     (400, ''// Initialize Rails infrastructure. Call at program startup.'')]"

definition c_source_0401 :: "line list" where
  "c_source_0401 =
    [(401, []),
     (402, ''// // init_[component] initializes this component's infrastructure.''),
     (403, ''// // Must be called before any other functions in this file.''),
     (404, ''// static void init_[component](void) {''),
     (405, ''//     // Attach to logging rail''),
     (406, ''//     component_logger = logger_new(\"[componentname]\");''),
     (407, ''//''),
     (408, ''//     // Attach to debugging rail''),
     (409, ''//     component_inspector = inspector_new(\"[componentname]\");''),
     (410, ''//     inspector_enable(component_inspector);  // Enable by default for development''),
     (411, ''// }''),
     (412, []),
     (413, block_rule),
     (414, ''// END SETUP''),
     (415, block_rule),
     (416, []),
     (417, block_rule),
     (418, ''// BODY''),
     (419, block_rule),
     (420, ''//''),
     (421, ''// For BODY structure explanation, see: standards/code/4-block/CWS-STD-007-CODE-body-block.md''),
     (422, []),
     (423, light_rule),
     (424, ''// Organizational Chart - Internal Structure''),
     (425, light_rule),
     (426, ''// Maps bidirectional dependencies and baton flow within this component.''),
     (427, ''// Provides navigation for both development (what's available to use) and''),
     (428, ''// maintenance (what depends on this function).''),
     (429, ''//''),
     (430, ''// See: standards/code/4-block/sections/body/CWS-SECTION-BODY-001-organizational-chart.md''),
     (431, ''//''),
     (432, ''// Ladder Structure (Dependencies):''),
     (433, ''//''),
     (434, ''//   Public APIs (Top Rungs - Orchestration)''),
     (435, ''//   '' @ box_tee @ box_light @ box_light @ '' [PublicFunction1]() '' @ arrow_right @ '' uses [helper1](), [coreOp1]()''),
     (436, ''//   '' @ box_corner @ box_light @ box_light @ '' [PublicFunction2]() '' @ arrow_right @ '' uses [helper2](), [coreOp2]()''),
     (437, ''//''),
     (438, ''//   Core Operations (Middle Rungs - Business Logic)''),
     (439, ''//   '' @ box_tee @ box_light @ box_light @ '' [coreOp1]() '' @ arrow_right @ '' uses [helper1](), [helper3]()''),
     (440, ''//   '' @ box_corner @ box_light @ box_light @ '' [coreOp2]() '' @ arrow_right @ '' uses [helper2]()''),
     (441, ''//''),
     (442, ''//   Helpers (Bottom Rungs - Foundations)''),
     (443, ''//   '' @ box_tee @ box_light @ box_light @ '' [helper1]() '' @ arrow_right @ '' pure function''),
     (444, ''//   '' @ box_tee @ box_light @ box_light @ '' [helper2]() '' @ arrow_right @ '' pure function''),
     (445, ''//   '' @ box_corner @ box_light @ box_light @ '' [helper3]() '' @ arrow_right @ '' pure function''),
     (446, ''//''),
     (447, ''// Baton Flow (Execution Paths):''),
     (448, ''//''),
     (449, ''//   Entry '' @ arrow_right @ '' [PublicFunction1]()''),
     (450, ''//     '' @ arrow_down)]"

definition c_source_0451 :: "line list" where
  "c_source_0451 =
    [(451, ''//   [helper1]() '' @ arrow_right @ '' [coreOp1]()''),
     (452, ''//     '' @ arrow_down),
     (453, ''//   [helper3]()''),
     (454, ''//     '' @ arrow_down),
     (455, ''//   Exit '' @ arrow_right @ '' return result''),
     (456, ''//''),
     (457, ''// Module Dependencies (Orchestrator Pattern):''),
     (458, ''// For multi-file packages, document which modules this file calls.''),
     (459, ''//   [thisfile.go] (orchestrator) '' @ arrow_right @ '' [module1.go] ([purpose])''),
     (460, ''//                                '' @ arrow_right @ '' [module2.go] ([purpose])''),
     (461, ''//''),
     (462, ''// APUs (Available Processing Units):''),
     (463, ''// - [X] functions total''),
     (464, ''// - [X] helpers (pure foundations)''),
     (465, ''// - [X] core operations (business logic)''),
     (466, ''// - [X] public APIs (exported interface)''),
     (467, []),
     (468, light_rule),
     (469, ''// Helpers/Utilities - Internal Support''),
     (470, light_rule),
     (471, ''// Foundation functions used throughout this component. Bottom rungs of''),
     (472, ''// the ladder - simple, focused, reusable utilities. Usually not exported.''),
     (473, ''//''),
     (474, ''// See: standards/code/4-block/sections/body/CWS-SECTION-BODY-002-helpers.md''),
     (475, ''//''),
     (476, ''// Note: For multi-file packages using orchestrator pattern, helpers may''),
     (477, ''// be extracted to separate modules. Document with [Reserved]:''),
     (478, ''//   [Reserved: [HelperName]() extracted to [module.go] (orchestrator pattern).''),
     (479, ''//   This file acts as orchestrator - it calls helpers in other modules.]''),
     (480, ''//''),
     (481, ''// [Reserved: Additional helpers will emerge as component develops]''),
     (482, []),
     (483, ''// [helperName] [does what]''),
     (484, ''//''),
     (485, ''// What It Does:''),
     (486, ''// [Brief explanation - helpers are usually simple and focused]''),
     (487, ''//''),
     (488, ''// Parameters:''),
     (489, ''//   [paramName]: [Purpose and expected values]''),
     (490, ''//''),
     (491, ''// Returns:''),
     (492, ''//   [returnType]: [What's returned]''),
     (493, ''//''),
     (494, ''// Example usage:''),
     (495, ''//''),
     (496, ''//     [return_type] result = [helper_name]([params]);''),
     (497, ''//''),
     (498, ''// static [return_type] [helper_name]([param_type] [param_name]) {''),
     (499, ''//     // Implementation - keep pure when possible (no side effects)''),
     (500, ''//     // Pure functions are easier to test and reason about'')]"

definition c_source_0501 :: "line list" where
  "c_source_0501 =
    [(501, ''//''),
     (502, ''//     return [result];  // Return transformed/calculated result''),
     (503, ''// }''),
     (504, []),
     (505, light_rule),
     (506, ''// Core Operations - Business Logic''),
     (507, light_rule),
     (508, ''// Component-specific functionality implementing primary purpose. Organized''),
     (509, ''// by operational categories (descriptive subsections) below.''),
     (510, ''//''),
     (511, ''// See: standards/code/4-block/sections/body/CWS-SECTION-BODY-003-core-operations.md''),
     (512, []),
     (513, light_rule),
     (514, ''// [Category 1 Name] - [Purpose]''),
     (515, light_rule),
     (516, ''// What These Do:''),
     (517, ''// [High-level description of this category of operations]''),
     (518, ''//''),
     (519, ''// Why Separated:''),
     (520, ''// [Reasoning for this grouping - explain organization logic]''),
     (521, ''//''),
     (522, ''// Extension Point:''),
     (523, ''// To add new [operation type], create function following [naming pattern].''),
     (524, ''// Each [operation] should [pattern to follow]. Update [orchestration function]''),
     (525, ''// to integrate new operation.''),
     (526, ''//''),
     (527, ''// Pattern to follow:''),
     (528, ''//   1. [Step 1 - create function with specific signature]''),
     (529, ''//   2. [Step 2 - implement with specific behavior]''),
     (530, ''//   3. [Step 3 - integrate with existing code]''),
     (531, ''//   4. [Step 4 - update tests]''),
     (532, ''//''),
     (533, ''// Example categories:''),
     (534, ''// - Validation: Input checking, constraint verification''),
     (535, ''// - Conversion: Data transformation between formats''),
     (536, ''// - Processing: Core algorithms and computations''),
     (537, ''// - Formatting: Output preparation''),
     (538, ''// - Analysis: Data examination and metrics''),
     (539, []),
     (540, ''// [FunctionName] [does what]''),
     (541, ''//''),
     (542, ''// What It Does:''),
     (543, ''// [Detailed explanation of function purpose and behavior]''),
     (544, ''//''),
     (545, ''// Parameters:''),
     (546, ''//   [paramName]: [Purpose and expected values]''),
     (547, ''//''),
     (548, ''// Returns:''),
     (549, ''//   [returnType]: [What's returned and meaning]''),
     (550, ''//   error: [When error returned, what it means]'')]"

definition c_source_0551 :: "line list" where
  "c_source_0551 =
    [(551, ''//''),
     (552, ''// Health Impact:''),
     (553, ''//   Success: +X points ([reasoning for value])''),
     (554, ''//   Failure: -X points ([reasoning for value])''),
     (555, ''//''),
     (556, ''// Troubleshooting (for operations that commonly have issues):''),
     (557, ''//   Problem: \"[common error message]\"''),
     (558, ''//     Check: [What to verify - file exists, permissions, etc.]''),
     (559, ''//     Check: [Another thing to verify]''),
     (560, ''//     Solution: [How to fix the problem]''),
     (561, ''//''),
     (562, ''//   Problem: \"[another common issue]\"''),
     (563, ''//     Check: [Diagnostic step]''),
     (564, ''//     Solution: [How to resolve]''),
     (565, ''//''),
     (566, ''// Include troubleshooting for: File I/O, network operations, configuration''),
     (567, ''// parsing, external dependencies, complex validation. Focus on genuinely''),
     (568, ''// common issues, not every edge case.''),
     (569, ''//''),
     (570, ''// Example usage:''),
     (571, ''//''),
     (572, ''//     [return_type] result;''),
     (573, ''//     int status = [function_name]([params], &result);''),
     (574, ''//     if (status != 0) {''),
     (575, ''//         // [How to handle errors]''),
     (576, ''//     }''),
     (577, ''//''),
     (578, ''// static int [function_name]([param_type] [param_name], [return_type]* result) {''),
     (579, ''//     // DEBUGGING: Capture input state before processing''),
     (580, ''//     // inspector_snapshot(component_inspector, \"[operation-name]-start\", ...);''),
     (581, ''//''),
     (582, ''//     // [Implementation with business logic]''),
     (583, ''//''),
     (584, ''//     // Health tracking pattern:''),
     (585, ''//     // if ([success condition]) {''),
     (586, ''//     //     logger_success(component_logger, \"[description]\", +X);''),
     (587, ''//     // } else {''),
     (588, ''//     //     logger_failure(component_logger, \"[description]\", \"[reason]\", -X);''),
     (589, ''//     // }''),
     (590, ''//''),
     (591, ''//     // DEBUGGING: Capture expected vs actual state divergence''),
     (592, ''//     // inspector_expected_state(component_inspector, \"[check-name]\", expected, actual);''),
     (593, ''//''),
     (594, ''//     // *result = [computed_value];''),
     (595, ''//     // return 0;  // Success''),
     (596, ''// }''),
     (597, []),
     (598, light_rule),
     (599, ''// [Category 2 Name] - [Purpose]''),
     (600, light_rule)]"

definition c_source_0601 :: "line list" where
  "c_source_0601 =
    [(601, ''// [Same documentation pattern as Category 1]''),
     (602, []),
     (603, light_rule),
     (604, ''// Error Handling/Recovery Patterns''),
     (605, light_rule),
     (606, ''// Centralized error management ensuring component handles failures gracefully.''),
     (607, ''// Provides safety boundaries and recovery strategies for robust operation.''),
     (608, ''//''),
     (609, ''// See: standards/code/4-block/sections/body/CWS-SECTION-BODY-004-error-handling.md''),
     (610, ''//''),
     (611, ''// Design Principle: [Blocking/Non-blocking] - [Brief explanation of philosophy]''),
     (612, ''// Example: Non-blocking - [component] failures never interrupt [main operation].''),
     (613, ''// The work of [main purpose] is more important than [secondary concern].''),
     (614, ''//''),
     (615, ''// Recovery Strategy:''),
     (616, ''//   - [Error type 1]: [How handled - e.g., Graceful degradation (fallback behavior)]''),
     (617, ''//   - [Error type 2]: [How handled - e.g., Fallback to alternative classification]''),
     (618, ''//   - [Error type 3]: [How handled - e.g., No panics - caught and logged]''),
     (619, ''//''),
     (620, ''// Common patterns:''),
     (621, ''// - Return codes: Use int return values (0 = success, non-zero = error)''),
     (622, ''// - Error context: Log detailed context before returning error code''),
     (623, ''// - Graceful degradation: Continue with reduced functionality''),
     (624, ''// - Retry logic: Handle transient failures''),
     (625, ''// - Cleanup on error: Use goto for centralized cleanup (Linux kernel style)''),
     (626, []),
     (627, ''// log_error logs an error with context and health tracking.''),
     (628, ''//''),
     (629, ''// Pattern for consistent error logging throughout component.''),
     (630, ''// Logs error details and updates health score.''),
     (631, ''//''),
     (632, ''// Parameters:''),
     (633, ''//   function: Name of function where error occurred''),
     (634, ''//   message: Error description''),
     (635, ''//   health_delta: Negative health impact of error''),
     (636, ''//''),
     (637, ''// Example usage:''),
     (638, ''//''),
     (639, ''//     if (result == NULL) {''),
     (640, ''//         log_error(\"some_function\", \"memory allocation failed\", -10);''),
     (641, ''//         return -1;''),
     (642, ''//     }''),
     (643, ''//''),
     (644, ''// static void log_error(const char* function, const char* message, int health_delta) {''),
     (645, ''//     logger_error(component_logger, function, message, health_delta);''),
     (646, ''// }''),
     (647, []),
     (648, ''// Cleanup pattern using goto (Linux kernel style).''),
     (649, ''//''),
     (650, ''// Centralizes cleanup code for functions with multiple exit points.'')]"

definition c_source_0651 :: "line list" where
  "c_source_0651 =
    [(651, ''// Each resource acquisition has matching cleanup label.''),
     (652, ''//''),
     (653, ''// Example usage:''),
     (654, ''//''),
     (655, ''//     int some_function(void) {''),
     (656, ''//         int result = -1;''),
     (657, ''//         char* buffer = NULL;''),
     (658, ''//         FILE* file = NULL;''),
     (659, ''//''),
     (660, ''//         buffer = malloc(SIZE);''),
     (661, ''//         if (buffer == NULL) goto cleanup;''),
     (662, ''//''),
     (663, ''//         file = fopen(\"path\", \"r\");''),
     (664, ''//         if (file == NULL) goto cleanup_buffer;''),
     (665, ''//''),
     (666, ''//         // ... do work ...''),
     (667, ''//         result = 0;  // Success''),
     (668, ''//''),
     (669, ''//     cleanup_file:''),
     (670, ''//         fclose(file);''),
     (671, ''//     cleanup_buffer:''),
     (672, ''//         free(buffer);''),
     (673, ''//     cleanup:''),
     (674, ''//         return result;''),
     (675, ''//     }''),
     (676, []),
     (677, light_rule),
     (678, ''// Public APIs - Exported Interface''),
     (679, light_rule),
     (680, ''// Exported functions defining component's public interface. Top rungs of''),
     (681, ''// the ladder - orchestrate helpers and core operations into complete''),
     (682, ''// functionality. Simple by design - complexity lives in helpers and core''),
     (683, ''// operations, Public APIs orchestrate proven pieces.''),
     (684, ''//''),
     (685, ''// See: standards/code/4-block/sections/body/CWS-SECTION-BODY-005-public-apis.md''),
     (686, ''//''),
     (687, ''// Organization: Group public APIs by purpose using category dividers:''),
     (688, ''//   // '' @ box_double @ box_double @ box_double @ '' Category Name '' @ box_double @ box_double @ box_double),
     (689, ''//   // [Functions in this category]''),
     (690, ''//''),
     (691, ''// Common categories: Initialization, Creation, Operations, Health, Cleanup''),
     (692, []),
     (693, ''// '' @ box_double @ box_double @ box_double @ '' [Category Name] '' @ box_double @ box_double @ box_double),
     (694, []),
     (695, ''// [PublicFunctionName] [does what at high level]''),
     (696, ''//''),
     (697, ''// What It Does:''),
     (698, ''// [Detailed explanation of complete operation]''),
     (699, ''//''),
     (700, ''// Parameters:'')]"

definition c_source_0701 :: "line list" where
  "c_source_0701 =
    [(701, ''//   [paramName]: [Purpose and expected values]''),
     (702, ''//''),
     (703, ''// Returns:''),
     (704, ''//   [returnType]: [What's returned and meaning]''),
     (705, ''//   error: [When error returned, what it means]''),
     (706, ''//''),
     (707, ''// Health Impact:''),
     (708, ''//   Success: +X points ([reasoning])''),
     (709, ''//   Validation failure: -X points ([reasoning])''),
     (710, ''//   Processing failure: -X points ([reasoning])''),
     (711, ''//''),
     (712, ''// Example usage:''),
     (713, ''//''),
     (714, ''//     [return_type] result;''),
     (715, ''//     int status = [public_function_name]([params], &result);''),
     (716, ''//     if (status != 0) {''),
     (717, ''//         fprintf(stderr, \"Operation failed'' @ backslash @ ''n\");''),
     (718, ''//         return;''),
     (719, ''//     }''),
     (720, ''//     printf(\"Result: %d'' @ backslash @ ''n\", result);''),
     (721, ''//''),
     (722, ''// int [public_function_name]([param_type] [param_name], [return_type]* result) {''),
     (723, ''//     // DEBUGGING: Capture input state before processing''),
     (724, ''//     // inspector_snapshot(component_inspector, \"[operation]-start\", ...);''),
     (725, ''//''),
     (726, ''//     // Validate using helper function''),
     (727, ''//     if (![helper_validation]([input])) {  // Check if input meets criteria''),
     (728, ''//         logger_failure(component_logger, \"invalid input\", \"validation failed\", -X);''),
     (729, ''//         return -1;  // Validation error''),
     (730, ''//     }''),
     (731, ''//''),
     (732, ''//     // Process using core operation (orchestrate, don't duplicate)''),
     (733, ''//     [temp_type] temp_result;''),
     (734, ''//     if ([core_operation]([input], &temp_result) != 0) {  // Apply business logic''),
     (735, ''//         logger_error(component_logger, \"processing failed\", -X);''),
     (736, ''//         return -2;  // Processing error''),
     (737, ''//     }''),
     (738, ''//''),
     (739, ''//     // Success - log with health impact''),
     (740, ''//     logger_success(component_logger, \"[operation] complete\", +X);''),
     (741, ''//''),
     (742, ''//     // DEBUGGING: Capture final state''),
     (743, ''//     // inspector_snapshot(component_inspector, \"[operation]-complete\", ...);''),
     (744, ''//''),
     (745, ''//     *result = temp_result;  // Copy result to output parameter''),
     (746, ''//     return 0;  // Success''),
     (747, ''// }''),
     (748, []),
     (749, block_rule),
     (750, ''// END BODY'')]"

definition c_source_0751 :: "line list" where
  "c_source_0751 =
    [(751, block_rule),
     (752, []),
     (753, block_rule),
     (754, ''// CLOSING''),
     (755, block_rule),
     (756, ''//''),
     (757, ''// For CLOSING structure explanation, see: standards/code/4-block/CWS-STD-008-CODE-closing-block.md''),
     (758, ''//''),
     (759, light_rule),
     (760, ''// Code Validation: [executableName] (Command)''),
     (761, light_rule),
     (762, ''// For Code Validation section explanation, see: standards/code/4-block/sections/closing/CWS-SECTION-CLOSING-001-code-validation.md''),
     (763, ''//''),
     (764, ''// Build Verification:''),
     (765, ''//   - gcc -Wall -Wextra -o [binary-name] [source].c (compiles without warnings)''),
     (766, ''//   - clang --analyze [source].c (static analysis)''),
     (767, ''//   - make (if using Makefile)''),
     (768, ''//''),
     (769, ''// Runtime Verification:''),
     (770, ''//   - ./[binary-name] --help (shows usage)''),
     (771, ''//   - ./[binary-name] [test-args] (produces expected output)''),
     (772, ''//   - ./[binary-name] [invalid-args] (handles errors gracefully)''),
     (773, ''//''),
     (774, ''// Testing Requirements:''),
     (775, ''//   - Run test executable or CUnit/Unity tests''),
     (776, ''//   - Verify [output/files/results] created correctly''),
     (777, ''//   - Check exit codes match expected behavior''),
     (778, ''//   - Use valgrind --leak-check=full ./[binary-name] for memory checking''),
     (779, ''//   - Confirm signal handling works (Ctrl+C graceful shutdown)''),
     (780, ''//''),
     (781, ''// Integration Testing:''),
     (782, ''//   - Test with actual input data''),
     (783, ''//   - Verify [specific behavior] in real usage context''),
     (784, ''//   - Check [performance/resource usage] under load''),
     (785, ''//   - Validate output format with downstream consumers''),
     (786, ''//''),
     (787, ''// Example validation commands:''),
     (788, ''//''),
     (789, ''//     # Build and verify''),
     (790, ''//     gcc -Wall -Wextra -Werror -std=c11 -o [binary-name] [source].c''),
     (791, ''//     clang --analyze [source].c''),
     (792, ''//''),
     (793, ''//     # Test execution''),
     (794, ''//     ./[binary-name] --help''),
     (795, ''//     ./[binary-name] [typical-args]''),
     (796, ''//     echo $?  # Check exit code''),
     (797, ''//''),
     (798, ''//     # Memory check''),
     (799, ''//     valgrind --leak-check=full ./[binary-name] [args]''),
     (800, ''//'')]"

definition c_source_0801 :: "line list" where
  "c_source_0801 =
    [(801, light_rule),
     (802, ''// Code Execution: [executableName] (Command)''),
     (803, light_rule),
     (804, ''// For Code Execution section explanation, see: standards/code/4-block/sections/closing/CWS-SECTION-CLOSING-002-code-execution.md''),
     (805, ''//''),
     (806, ''// Entry Point: main()''),
     (807, ''//''),
     (808, ''// Execution Flow:''),
     (809, ''//   1. Parse command-line arguments''),
     (810, ''//   2. Initialize configuration/logging''),
     (811, ''//   3. Validate inputs''),
     (812, ''//   4. Execute core operation(s)''),
     (813, ''//   5. Handle results/output''),
     (814, ''//   6. Cleanup and exit''),
     (815, ''//''),
     (816, ''// Exit Codes:''),
     (817, ''//   0 - Success''),
     (818, ''//   1 - General error''),
     (819, ''//   2 - Usage/argument error''),
     (820, ''//   [N] - [Specific error meaning]''),
     (821, ''//''),
     (822, ''// Signal Handling:''),
     (823, ''//   SIGINT (Ctrl+C) - Graceful shutdown''),
     (824, ''//   SIGTERM - Graceful shutdown''),
     (825, ''//   [Other signals as needed]''),
     (826, []),
     (827, ''// main is the entry point for [executable-name].''),
     (828, ''//''),
     (829, ''// Orchestrates [brief description of what this executable does].''),
     (830, ''// See execution flow above for step-by-step process.''),
     (831, ''//''),
     (832, ''// Parameters:''),
     (833, ''//   argc: Argument count''),
     (834, ''//   argv: Argument vector (array of strings)''),
     (835, ''//''),
     (836, ''// Returns:''),
     (837, ''//   0 on success, non-zero on error (see Exit Codes above)''),
     (838, ''int main(int argc, char* argv[]) {''),
     (839, ''    // 1. Parse command-line arguments''),
     (840, ''    // [ArgStruct] args;''),
     (841, ''    // if (parse_args(argc, argv, &args) != 0) {''),
     (842, ''    //     fprintf(stderr, \"Error: Invalid arguments'' @ backslash @ ''n\");''),
     (843, ''    //     return 2;''),
     (844, ''    // }''),
     (845, []),
     (846, ''    // 2. Initialize configuration/logging''),
     (847, ''    // [Config] config;''),
     (848, ''    // load_config(&config);''),
     (849, ''    // setup_logging(&config);''),
     (850, [])]"

definition c_source_0851 :: "line list" where
  "c_source_0851 =
    [(851, ''    // 3. Validate inputs''),
     (852, ''    // if (validate_inputs(&args) != 0) {''),
     (853, ''    //     fprintf(stderr, \"Error: Validation failed'' @ backslash @ ''n\");''),
     (854, ''    //     return 2;''),
     (855, ''    // }''),
     (856, []),
     (857, ''    // 4. Execute core operation(s)''),
     (858, ''    // [ResultType] result;''),
     (859, ''    // if (execute_main(&args, &config, &result) != 0) {''),
     (860, ''    //     fprintf(stderr, \"Error: Execution failed'' @ backslash @ ''n\");''),
     (861, ''    //     return 1;''),
     (862, ''    // }''),
     (863, []),
     (864, ''    // 5. Handle results/output''),
     (865, ''    // output_results(&result);''),
     (866, []),
     (867, ''    // 6. Cleanup and exit successfully''),
     (868, ''    // cleanup();''),
     (869, ''    return 0;''),
     (870, ''}''),
     (871, ''//''),
     (872, light_rule),
     (873, ''// Code Cleanup: [executableName] (Command)''),
     (874, light_rule),
     (875, ''// For Code Cleanup section explanation, see: standards/code/4-block/sections/closing/CWS-SECTION-CLOSING-003-code-cleanup.md''),
     (876, ''//''),
     (877, ''// Resource Management:''),
     (878, ''//   - [Resource type 1]: [How it's managed - auto/manual/deferred]''),
     (879, ''//   - [Resource type 2]: [Management strategy]''),
     (880, ''//   - [Resource type 3]: [Cleanup approach]''),
     (881, ''//''),
     (882, ''// Graceful Shutdown:''),
     (883, ''//   - Signal handler catches SIGINT/SIGTERM''),
     (884, ''//   - In-progress operations complete or rollback''),
     (885, ''//   - Resources released in reverse order of acquisition''),
     (886, ''//   - Exit with appropriate code''),
     (887, ''//''),
     (888, ''// Error State Cleanup:''),
     (889, ''//   - Check return values and clean up on error paths''),
     (890, ''//   - [Specific cleanup on error paths if applicable]''),
     (891, ''//   - [Any rollback mechanisms]''),
     (892, ''//''),
     (893, ''// Memory Management:''),
     (894, ''//   - C requires manual memory management (malloc/free)''),
     (895, ''//   - Track all allocations, ensure matching frees''),
     (896, ''//   - Use valgrind for leak detection during development''),
     (897, ''//   - [Large allocations to be aware of]''),
     (898, ''//''),
     (899, ''// Example signal handling pattern:''),
     (900, ''//'')]"

definition c_source_0901 :: "line list" where
  "c_source_0901 =
    [(901, ''//     #include <signal.h>''),
     (902, ''//''),
     (903, ''//     volatile sig_atomic_t shutdown_requested = 0;''),
     (904, ''//''),
     (905, ''//     void signal_handler(int signum) {''),
     (906, ''//         shutdown_requested = 1;''),
     (907, ''//     }''),
     (908, ''//''),
     (909, ''//     int main(int argc, char* argv[]) {''),
     (910, ''//         signal(SIGINT, signal_handler);''),
     (911, ''//         signal(SIGTERM, signal_handler);''),
     (912, ''//''),
     (913, ''//         while (!shutdown_requested) {''),
     (914, ''//             // Main loop''),
     (915, ''//         }''),
     (916, ''//''),
     (917, ''//         cleanup();''),
     (918, ''//         return 0;''),
     (919, ''//     }''),
     (920, ''//''),
     (921, ''// Example cleanup pattern:''),
     (922, ''//''),
     (923, ''//     int main(int argc, char* argv[]) {''),
     (924, ''//         Resource* resource = acquire_resource();''),
     (925, ''//         if (resource == NULL) {''),
     (926, ''//             return 1;''),
     (927, ''//         }''),
     (928, ''//''),
     (929, ''//         int result = do_work(resource);''),
     (930, ''//''),
     (931, ''//         // Cleanup before exit''),
     (932, ''//         release_resource(resource);''),
     (933, ''//         return result;''),
     (934, ''//     }''),
     (935, ''//''),
     (936, double_rule),
     (937, ''// FINAL DOCUMENTATION''),
     (938, double_rule),
     (939, ''//''),
     (940, light_rule),
     (941, ''// Executable Overview & Usage Summary''),
     (942, light_rule),
     (943, ''// For Executable Overview section explanation, see: standards/code/4-block/sections/closing/CWS-SECTION-CLOSING-004-library-overview.md''),
     (944, ''//''),
     (945, ''// Purpose: See METADATA \"Purpose & Function\" section above''),
     (946, ''//''),
     (947, ''// Provides: See METADATA \"Key Features\" list above for comprehensive capabilities''),
     (948, ''//''),
     (949, ''// Quick summary (high-level only - details in METADATA):''),
     (950, ''//   - [1-2 sentence overview of what this executable does]'')]"

definition c_source_0951 :: "line list" where
  "c_source_0951 =
    [(951, ''//   - [Feature 5]: [What it does]''),
     (952, ''//''),
     (953, ''// Usage Pattern: See METADATA \"Usage & Integration\" section above for''),
     (954, ''// complete command-line usage guide''),
     (955, ''//''),
     (956, ''// Commands/Flags: See METADATA \"Usage & Integration\" section above for complete''),
     (957, ''// command-line interface organized by category''),
     (958, ''//''),
     (959, ''// Architecture: See METADATA \"CPI-SI Identity\" section above for complete''),
     (960, ''// architectural role (Rails/Ladder/Baton) explanation''),
     (961, ''//''),
     (962, light_rule),
     (963, ''// Modification Policy''),
     (964, light_rule),
     (965, ''// For Modification Policy section explanation, see: standards/code/4-block/sections/closing/CWS-SECTION-CLOSING-005-modification-policy.md''),
     (966, ''//''),
     (967, ''// Safe to Modify (Extension Points):''),
     (968, ''//   '' @ check_button @ '' Add new [functions/types/constants] (follow existing patterns)''),
     (969, ''//   '' @ check_button @ '' Add new [helper functions] in appropriate groups''),
     (970, ''//   '' @ check_button @ '' Extend [specific feature] (add more [specific thing])''),
     (971, ''//   '' @ check_button @ '' [Other safe modification]''),
     (972, ''//   '' @ check_button @ '' [Other safe modification]''),
     (973, ''//''),
     (974, ''// Modify with Extreme Care (Breaking Changes):''),
     (975, ''//   '' @ warning_sign @ variation_16 @ '' Public API function signatures - breaks all calling code''),
     (976, ''//   '' @ warning_sign @ variation_16 @ '' [Exported struct] fields - breaks code accessing fields directly''),
     (977, ''//   '' @ warning_sign @ variation_16 @ '' [Critical system behavior] - affects all users''),
     (978, ''//   '' @ warning_sign @ variation_16 @ '' [Data format/protocol] - breaks parsing tools''),
     (979, ''//   '' @ warning_sign @ variation_16 @ '' [Core algorithm] - affects correctness''),
     (980, ''//''),
     (981, ''// NEVER Modify (Foundational Rails):''),
     (982, ''//   '' @ cross_mark @ '' 4-block structure (METADATA, SETUP, BODY, CLOSING)''),
     (983, ''//   '' @ cross_mark @ '' [Fundamental principle 1]''),
     (984, ''//   '' @ cross_mark @ '' [Fundamental principle 2]''),
     (985, ''//   '' @ cross_mark @ '' [Architectural pattern - Rails/etc]''),
     (986, ''//   '' @ cross_mark @ '' [Core design invariant]''),
     (987, ''//''),
     (988, ''// Validation After Modifications:''),
     (989, ''//   See \"Code Validation\" section in GROUP 1: CODING above for comprehensive''),
     (990, ''//   testing requirements, build verification, and integration testing procedures.''),
     (991, ''//''),
     (992, light_rule),
     (993, ''// Ladder and Baton Flow''),
     (994, light_rule),
     (995, ''// For Ladder and Baton Flow section explanation, see: standards/code/4-block/sections/closing/CWS-SECTION-CLOSING-006-ladder-baton-flow.md''),
     (996, ''//''),
     (997, ''// See BODY \"Organizational Chart - Internal Structure\" section above for''),
     (998, ''// complete ladder structure (dependencies) and baton flow (execution paths).''),
     (999, ''//''),
     (1000, ''// The Organizational Chart in BODY provides the detailed map showing:'')]"

definition c_source_1001 :: "line list" where
  "c_source_1001 =
    [(1001, ''// - All functions and their dependencies (ladder)''),
     (1002, ''// - Complete execution flow paths (baton)''),
     (1003, ''// - APU count (Available Processing Units)''),
     (1004, ''//''),
     (1005, ''// Quick architectural summary (details in BODY Organizational Chart):''),
     (1006, ''// - [X] public APIs orchestrate [Y] core operations using [Z] helpers''),
     (1007, ''// - Ladder: [Brief dependency summary]''),
     (1008, ''// - Baton: [Brief execution flow summary]''),
     (1009, ''//''),
     (1010, light_rule),
     (1011, ''// Surgical Update Points (Extension Guide)''),
     (1012, light_rule),
     (1013, ''// For Surgical Update Points section explanation, see: standards/code/4-block/sections/closing/CWS-SECTION-CLOSING-007-surgical-update-points.md''),
     (1014, ''//''),
     (1015, ''// See BODY \"Core Operations\" subsection header comments above for detailed''),
     (1016, ''// extension points. Each subsection includes \"Extension Point\" guidance showing:''),
     (1017, ''// - Where to add new functionality''),
     (1018, ''// - What naming pattern to follow''),
     (1019, ''// - How to integrate with existing code''),
     (1020, ''// - What tests to update''),
     (1021, ''//''),
     (1022, ''// Quick reference (details in BODY subsection comments):''),
     (1023, ''// - Adding [Feature Type 1]: See BODY \"[Subsection Name]\" extension point''),
     (1024, ''// - Adding [Feature Type 2]: See BODY \"[Another Subsection]\" extension point''),
     (1025, ''// - Adding helpers: See BODY \"Helpers/Utilities\" section organization''),
     (1026, ''//''),
     (1027, light_rule),
     (1028, ''// Performance Considerations''),
     (1029, light_rule),
     (1030, ''// For Performance Considerations section explanation, see: standards/code/4-block/sections/closing/CWS-SECTION-CLOSING-008-performance-considerations.md''),
     (1031, ''//''),
     (1032, ''// See SETUP section above for performance characteristics:''),
     (1033, ''// - Constants: Performance notes on configuration values (memory per operation, etc.)''),
     (1034, ''// - Types: Memory usage and complexity analysis for data structures''),
     (1035, ''//''),
     (1036, ''// See BODY function docstrings above for operation-specific performance notes.''),
     (1037, ''//''),
     (1038, ''// Quick summary (details in SETUP/BODY above):''),
     (1039, ''// - [Most expensive operation]: [Brief cost summary - see BODY docstring for details]''),
     (1040, ''// - [Memory characteristics]: [Brief summary - see SETUP types for details]''),
     (1041, ''// - Key optimization: [1-2 sentence tip]''),
     (1042, ''//''),
     (1043, light_rule),
     (1044, ''// Troubleshooting Guide''),
     (1045, light_rule),
     (1046, ''// For Troubleshooting Guide section explanation, see: standards/code/4-block/sections/closing/CWS-SECTION-CLOSING-009-troubleshooting-guide.md''),
     (1047, ''//''),
     (1048, ''// See BODY function docstrings above for operation-specific troubleshooting.''),
     (1049, ''// Functions that commonly have issues include \"Troubleshooting\" sections in''),
     (1050, ''// their docstrings with problem/check/solution patterns.'')]"

definition c_source_1051 :: "line list" where
  "c_source_1051 =
    [(1051, ''//''),
     (1052, ''// Quick reference (details in BODY function docstrings above):''),
     (1053, ''// - [Common Problem 1]: See [FunctionName] docstring troubleshooting section''),
     (1054, ''// - [Common Problem 2]: See [AnotherFunction] docstring troubleshooting section''),
     (1055, ''//   - Expected: [If this is normal behavior]''),
     (1056, ''//   - Note: [Design decision explanation]''),
     (1057, ''//''),
     (1058, ''// Problem: [Common problem 5]''),
     (1059, ''//   - Cause: [Root cause]''),
     (1060, ''//   - Solution: [How to fix]''),
     (1061, ''//   - Note: [Additional context]''),
     (1062, ''//''),
     (1063, light_rule),
     (1064, ''// Related Components & Dependencies''),
     (1065, light_rule),
     (1066, ''// For Related Components section explanation, see: standards/code/4-block/sections/closing/CWS-SECTION-CLOSING-010-related-components.md''),
     (1067, ''//''),
     (1068, ''// See METADATA \"Dependencies\" section above for complete dependency information:''),
     (1069, ''// - Dependencies (What This Needs): Standard Library, External, Internal''),
     (1070, ''// - Dependents (What Uses This): Commands, Libraries, Tools that depend on this''),
     (1071, ''// - Integration Points: How other systems connect and interact''),
     (1072, ''//''),
     (1073, ''// Quick summary (details in METADATA Dependencies section above):''),
     (1074, ''// - Key dependencies: [1-2 most critical dependencies]''),
     (1075, ''// - Primary consumers: [Who uses this most]''),
     (1076, ''//''),
     (1077, ''// Parallel Implementation (if applicable):''),
     (1078, ''//   - [Language 1] version: [path to parallel implementation]''),
     (1079, ''//   - [Language 2] version: [path to this or related implementation]''),
     (1080, ''//   - Shared [format/protocol/philosophy]: [What's consistent across implementations]''),
     (1081, ''//''),
     (1082, light_rule),
     (1083, ''// Future Expansions & Roadmap''),
     (1084, light_rule),
     (1085, ''// For Future Expansions section explanation, see: standards/code/4-block/sections/closing/CWS-SECTION-CLOSING-011-future-expansions.md''),
     (1086, ''//''),
     (1087, ''// Planned Features:''),
     (1088, ''//   '' @ check_mark @ '' [Completed feature] - COMPLETED''),
     (1089, ''//   '' @ check_mark @ '' [Another completed feature] - COMPLETED''),
     (1090, ''//   '' @ hourglass @ '' [Planned feature 1]''),
     (1091, ''//   '' @ hourglass @ '' [Planned feature 2]''),
     (1092, ''//   '' @ hourglass @ '' [Planned feature 3]''),
     (1093, ''//   '' @ hourglass @ '' [Planned feature 4]''),
     (1094, ''//''),
     (1095, ''// Research Areas:''),
     (1096, ''//   - [Research direction 1]''),
     (1097, ''//   - [Research direction 2]''),
     (1098, ''//   - [Research direction 3]''),
     (1099, ''//   - [Research direction 4]''),
     (1100, ''//   - [Research direction 5]'')]"

definition c_source_1101 :: "line list" where
  "c_source_1101 =
    [(1101, ''//''),
     (1102, ''// Integration Targets:''),
     (1103, ''//   - [System/language to integrate with]''),
     (1104, ''//   - [Another integration target]''),
     (1105, ''//   - [Cross-system correlation or bridging]''),
     (1106, ''//   - [Centralized or distributed capability]''),
     (1107, ''//   - [Monitoring or analysis system]''),
     (1108, ''//   - [Performance or profiling integration]''),
     (1109, ''//''),
     (1110, ''// Known Limitations to Address:''),
     (1111, ''//   - [Limitation 1 - description]''),
     (1112, ''//   - [Limitation 2 - description]''),
     (1113, ''//   - [Limitation 3 - description]''),
     (1114, ''//   - [Limitation 4 - description]''),
     (1115, ''//   - [Limitation 5 - description]''),
     (1116, ''//   - [Limitation 6 - description]''),
     (1117, ''//''),
     (1118, ''// Version History:''),
     (1119, ''//''),
     (1120, ''// See METADATA \"Authorship & Lineage\" section above for brief version changelog.''),
     (1121, ''// Comprehensive version history with full context below:''),
     (1122, ''//''),
     (1123, ''//   [X.Y.Z] ([Date]) - [Version description]''),
     (1124, ''//         - [Major feature or change]''),
     (1125, ''//         - [Another feature or change]''),
     (1126, ''//         - [Another feature or change]''),
     (1127, ''//         - [Design decision or principle established]''),
     (1128, ''//''),
     (1129, light_rule),
     (1130, ''// Closing Note''),
     (1131, light_rule),
     (1132, ''// For Closing Note section explanation, see: standards/code/4-block/sections/closing/CWS-SECTION-CLOSING-012-closing-note.md''),
     (1133, ''//''),
     (1134, ''// This executable is [architectural role - RAILS/LADDER/BATON description].''),
     (1135, ''// [Explain its place in the ecosystem and what depends on it].''),
     (1136, ''//''),
     (1137, ''// Modify thoughtfully - changes here affect [scope of impact]. [Any critical''),
     (1138, ''// design guarantees that must be maintained].''),
     (1139, ''//''),
     (1140, ''// For questions, issues, or contributions:''),
     (1141, ''//   - Review the modification policy above''),
     (1142, ''//   - Follow the 4-block structure pattern''),
     (1143, ''//   - Test thoroughly before committing (gcc -Wall -Wextra, valgrind)''),
     (1144, ''//   - Document all changes comprehensively (What/Why/How pattern)''),
     (1145, ''//   - Run static analysis (clang --analyze) before committing''),
     (1146, ''//''),
     (1147, ''// \"[Relevant Scripture verse]\" - [Reference]''),
     (1148, ''//''),
     (1149, light_rule),
     (1150, ''// Quick Reference: Usage Examples'')]"

definition c_source_1151 :: "line list" where
  "c_source_1151 =
    [(1151, light_rule),
     (1152, ''// For Quick Reference section explanation, see: standards/code/4-block/sections/closing/CWS-SECTION-CLOSING-013-quick-reference.md''),
     (1153, ''//''),
     (1154, ''// Basic Setup:''),
     (1155, ''//''),
     (1156, ''//     #include \"[component].h\"''),
     (1157, ''//''),
     (1158, ''//     int main(int argc, char* argv[]) {''),
     (1159, ''//         [Component]* component = [component]_create();''),
     (1160, ''//         // ... use component ...''),
     (1161, ''//         [component]_destroy(component);''),
     (1162, ''//         return 0;''),
     (1163, ''//     }''),
     (1164, ''//''),
     (1165, ''// Error Handling Pattern:''),
     (1166, ''//''),
     (1167, ''//     int result = [function]([params], &output);''),
     (1168, ''//     if (result != 0) {''),
     (1169, ''//         fprintf(stderr, \"Error: %s'' @ backslash @ ''n\", [component]_error_string(result));''),
     (1170, ''//         return result;''),
     (1171, ''//     }''),
     (1172, ''//''),
     (1173, ''// Resource Management (RAII-style):''),
     (1174, ''//''),
     (1175, ''//     [Resource]* res = [resource]_acquire();''),
     (1176, ''//     if (res == NULL) goto cleanup;''),
     (1177, ''//     // ... use resource ...''),
     (1178, ''//     result = 0;''),
     (1179, ''//     cleanup:''),
     (1180, ''//         [resource]_release(res);''),
     (1181, ''//         return result;''),
     (1182, ''//''),
     (1183, ''// Health Tracking Integration:''),
     (1184, ''//''),
     (1185, ''//     if ([operation]_succeeded) {''),
     (1186, ''//         logger_success(component_logger, \"[operation] complete\", +10);''),
     (1187, ''//     } else {''),
     (1188, ''//         logger_failure(component_logger, \"[operation] failed\", \"reason\", -10);''),
     (1189, ''//     }''),
     (1190, ''//''),
     (1191, block_rule),
     (1192, ''// END CLOSING''),
     (1193, block_rule),
     (1194, [])]"

definition c_source :: "line list" where
  "c_source =
     c_source_0001 @
     c_source_0051 @
     c_source_0101 @
     c_source_0151 @
     c_source_0201 @
     c_source_0251 @
     c_source_0301 @
     c_source_0351 @
     c_source_0401 @
     c_source_0451 @
     c_source_0501 @
     c_source_0551 @
     c_source_0601 @
     c_source_0651 @
     c_source_0701 @
     c_source_0751 @
     c_source_0801 @
     c_source_0851 @
     c_source_0901 @
     c_source_0951 @
     c_source_1001 @
     c_source_1051 @
     c_source_1101 @
     c_source_1151"

definition c_header_0001 :: "line list" where
  "c_header_0001 =
    [(1, banner_rule),
     (2, ''// TEMPLATE: C Header File (4-Block Structure)''),
     (3, ''// Key: LANG-TEMPLATE-010''),
     (4, banner_rule),
     (5, ''//''),
     (6, ''// DEPENDENCY CLASSIFICATION: [PURE/DEPENDED] ([deps if DEPENDED])''),
     (7, ''//   - PURE: Standard library only - no internal project dependencies''),
     (8, ''//   - DEPENDED: Needs internal headers - list them: (needs: header1.h, header2.h)''),
     (9, ''//''),
     (10, ''// This is a TEMPLATE file - copy and modify for new C header files.''),
     (11, ''// Replace all [bracketed] placeholders with actual content.''),
     (12, ''// Rename to appropriate name (e.g., module.h, types.h).''),
     (13, ''//''),
     (14, ''// Derived from: templates/code/c/CODE-C-002-C-header.h (root template)''),
     (15, ''// See: standards/code/4-block/ for complete documentation''),
     (16, ''//''),
     (17, ''// Compiler-Specific Adaptations:''),
     (18, ''//   - C interface declarations for compiler backend (codegen, runtime)''),
     (19, ''//   - Integration with CPI-SI health scoring types''),
     (20, ''//   - Memory management conventions for compiler infrastructure''),
     (21, ''//''),
     (22, banner_rule),
     (23, []),
     (24, ''#ifndef [HEADER_GUARD_NAME]_H''),
     (25, ''#define [HEADER_GUARD_NAME]_H''),
     (26, []),
     (27, ''// [brief description of what this header declares].''),
     (28, ''//''),
     (29, ''// [Library Name] Library - CPI-SI [Project/System Name]''),
     (30, ''//''),
     (31, ''// For METADATA structure explanation, see: standards/code/4-block/CWS-STD-004-CODE-metadata-block.md''),
     (32, ''//''),
     (33, ''// # Biblical Foundation''),
     (34, ''//''),
     (35, ''// Scripture: [Relevant verse grounding this library's purpose]''),
     (36, ''//''),
     (37, ''// Principle: [Kingdom principle this library demonstrates]''),
     (38, ''//''),
     (39, ''// Anchor: [Supporting verse reinforcing the principle]''),
     (40, ''//''),
     (41, ''// # CPI-SI Identity''),
     (42, ''//''),
     (43, ''// Component Type: [Ladder/Baton/Rails - see CWS-STD-004 for explanations]''),
     (44, ''//''),
     (45, ''// Role: [Specific responsibility in system architecture]''),
     (46, ''//''),
     (47, ''// Paradigm: CPI-SI framework component''),
     (48, ''//''),
     (49, ''// # Authorship & Lineage''),
     (50, ''//'')]"

definition c_header_0051 :: "line list" where
  "c_header_0051 =
    [(51, ''//   - Architect: [Who designed the approach and requirements]''),
     (52, ''//   - Implementation: [Who wrote the code and verified it works]''),
     (53, ''//   - Created: [YYYY-MM-DD]''),
     (54, ''//   - Version: [MAJOR.MINOR.PATCH]''),
     (55, ''//   - Modified: [YYYY-MM-DD - what changed]''),
     (56, ''//''),
     (57, ''// Version History:''),
     (58, ''//''),
     (59, ''//   - [X.Y.Z] ([YYYY-MM-DD]) - [Brief description of changes]''),
     (60, ''//   - [X.Y.Z] ([YYYY-MM-DD]) - [Brief description of changes]''),
     (61, ''//''),
     (62, ''// # Purpose & Function''),
     (63, ''//''),
     (64, ''// Purpose: [What problem does this library solve?]''),
     (65, ''//''),
     (66, ''// Core Design: [Architectural pattern or paradigm]''),
     (67, ''//''),
     (68, ''// Key Features:''),
     (69, ''//''),
     (70, ''//   - [What it provides - major capabilities]''),
     (71, ''//   - [What it enables - what others can build with this]''),
     (72, ''//   - [What problems it solves - specific use cases]''),
     (73, ''//   - [Additional capabilities]''),
     (74, ''//''),
     (75, ''// Philosophy: [Guiding principle for how this library works]''),
     (76, ''//''),
     (77, ''// # Blocking Status''),
     (78, ''//''),
     (79, ''// [Blocking/Non-blocking]: [Brief explanation]''),
     (80, ''//''),
     (81, ''// Mitigation: [How blocking/failures handled]''),
     (82, ''//''),
     (83, ''// # Usage & Integration''),
     (84, ''//''),
     (85, ''// Import:''),
     (86, ''//''),
     (87, ''//'' @ tab @ ''import \"[module-path]/[package-name]\"''),
     (88, ''//''),
     (89, ''// Integration Pattern:''),
     (90, ''//''),
     (91, ''//  1. [Initial setup step]''),
     (92, ''//  2. [Configuration step if needed]''),
     (93, ''//  3. [Typical usage workflow]''),
     (94, ''//  4. [Cleanup if needed]''),
     (95, ''//''),
     (96, ''// Public API (in typical usage order):''),
     (97, ''//''),
     (98, ''//'' @ tab @ ''[Category 1] ([purpose]):''),
     (99, ''//'' @ tab @ ''  [FunctionName](params) returns''),
     (100, ''//'' @ tab @ ''  [AnotherFunction](params) returns'')]"

definition c_header_0101 :: "line list" where
  "c_header_0101 =
    [(101, ''//''),
     (102, ''//'' @ tab @ ''[Category 2] ([purpose]):''),
     (103, ''//'' @ tab @ ''  [FunctionName](params) returns''),
     (104, ''//''),
     (105, ''// # Dependencies''),
     (106, ''//''),
     (107, ''// What This Needs:''),
     (108, ''//''),
     (109, ''//   - Standard Library: [list standard packages]''),
     (110, ''//   - External: [None | list external packages with versions]''),
     (111, ''//   - Internal: [project packages this depends on]''),
     (112, ''//''),
     (113, ''// Dependency Safety: [For Rails components - trace imports to stdlib/external only.''),
     (114, ''// Include this line to signal \"dependencies verified safe.\" Omit for non-Rails.]''),
     (115, ''//''),
     (116, ''// What Uses This:''),
     (117, ''//''),
     (118, ''//   - Commands: [list commands]''),
     (119, ''//   - Libraries: [list libraries]''),
     (120, ''//   - Tools: [list tools]''),
     (121, ''//''),
     (122, ''// Integration Points:''),
     (123, ''//''),
     (124, ''//   - [How other systems connect - Rails/Ladder/Baton mechanism]''),
     (125, ''//   - [Cross-component interactions]''),
     (126, ''//   - [Data flow or protocol integration]''),
     (127, ''//''),
     (128, ''// # Health Scoring''),
     (129, ''//''),
     (130, ''// System: [Base100 with 1-point granular scale from -100 to +100]''),
     (131, ''//''),
     (132, ''// States: [Granted (>+50), Deferred ('' @ plus_minus @ ''50), Denied (<-50)]''),
     (133, ''//''),
     (134, ''// [Operation Category]:''),
     (135, ''//''),
     (136, ''//   - [Specific operation]: '' @ plus_minus @ ''X points''),
     (137, ''//   - [Another operation]: '' @ plus_minus @ ''Y points''),
     (138, ''//''),
     (139, ''// Cascade Multipliers: [If applicable - describe categories and multipliers]''),
     (140, ''//''),
     (141, ''//   - [Category]: [X]x ([brief rationale])''),
     (142, ''//''),
     (143, ''// See: [Reference to detailed health scoring documentation]''),
     (144, ''//''),
     (145, ''// Note: Scores reflect TRUE impact. Health scorer normalizes to -100 to +100 scale.''),
     (146, ''//''),
     (147, ''// METADATA Omission Guide:''),
     (148, ''//   - Dependency Safety: Include for Rails (signals verified), omit for Ladder/Baton''),
     (149, ''//   - Cascade Multipliers: Include if operations cascade differently, omit if uniform''),
     (150, ''//   - States: Include if component makes state decisions, omit if pure pass-through'')]"

definition c_header_0151 :: "line list" where
  "c_header_0151 =
    [(151, ''//   - Health Scoring Variations:''),
     (152, ''//       * Config Provider: Provides health config, doesn't track own (use brief note)''),
     (153, ''//       * Health Tracker: Full scoring with System/States/Operations''),
     (154, ''//       * Pass-through: No health impact (omit or brief note)''),
     (155, ''//   - Unlike SETUP (all sections required), METADATA omission signals component characteristics''),
     (156, ''//''),
     (157, ''// Note: C headers declare interfaces, not implementations. Function bodies''),
     (158, ''// belong in corresponding .c source files (see CODE-C-001 template).''),
     (159, []),
     (160, block_rule),
     (161, ''// END METADATA''),
     (162, block_rule),
     (163, []),
     (164, block_rule),
     (165, ''// SETUP''),
     (166, block_rule),
     (167, ''//''),
     (168, ''// For SETUP structure explanation, see: standards/code/4-block/CWS-STD-006-CODE-setup-block.md''),
     (169, ''//''),
     (170, ''// Section order: Includes '' @ arrow_right @ '' Defines '' @ arrow_right @ '' Type Definitions '' @ arrow_right @ '' Function Prototypes '' @ arrow_right @ '' Extern Declarations''),
     (171, ''// This flows: dependencies '' @ arrow_right @ '' constants '' @ arrow_right @ '' data model '' @ arrow_right @ '' interface '' @ arrow_right @ '' shared state''),
     (172, ''//''),
     (173, ''// Why this order: Headers declare interfaces for other files to use. Start with what''),
     (174, ''// this header needs (includes), then constants, types, and finally the functions''),
     (175, ''// and variables that consumers will access.''),
     (176, ''//''),
     (177, ''// IMPORTANT: All sections MUST be present, even if empty or reserved.''),
     (178, ''// A lean section comment is better than absence. Why:''),
     (179, ''//   - Consistent structure across all files (navigation)''),
     (180, ''//   - Clear extension points (where to add when needed)''),
     (181, ''//   - Intentional vs forgotten (a reserved section is deliberate)''),
     (182, ''//''),
     (183, ''// For empty sections, use: // [Reserved: Brief reason why not needed]''),
     (184, []),
     (185, light_rule),
     (186, ''// Includes''),
     (187, light_rule),
     (188, ''//''),
     (189, ''// Headers this component needs. Organized by source - standard library''),
     (190, ''// provides C's built-in capabilities, project headers provide internal''),
     (191, ''// functionality. Each include commented with purpose, not just name.''),
     (192, ''//''),
     (193, ''// See: standards/code/4-block/sections/setup/CWS-SECTION-SETUP-001-imports.md''),
     (194, []),
     (195, ''//--- Standard Library ---''),
     (196, ''// Foundation headers providing C's built-in capabilities.''),
     (197, ''// Use angle brackets for system headers.''),
     (198, []),
     (199, ''// #include <stddef.h>     // size_t, NULL, offsetof''),
     (200, ''// #include <stdint.h>     // Fixed-width integer types (int32_t, uint64_t, etc.)'')]"

definition c_header_0201 :: "line list" where
  "c_header_0201 =
    [(201, ''// #include <stdbool.h>    // bool, true, false (C99+)''),
     (202, ''// #include <stdio.h>      // FILE*, printf, fprintf (if needed in declarations)''),
     (203, []),
     (204, ''//--- Project Headers ---''),
     (205, ''// Internal headers showing architectural dependencies.''),
     (206, ''// Use quotes for project headers.''),
     (207, []),
     (208, ''// #include \"[header].h\"       // [Purpose within project]''),
     (209, ''// #include \"../[path].h\"      // [Shared component purpose]''),
     (210, []),
     (211, ''//--- External Libraries ---''),
     (212, ''// Third-party dependencies (use sparingly - each adds risk).''),
     (213, ''// Why external: [Justify what stdlib lacks that requires this dependency]''),
     (214, ''//''),
     (215, ''// [Reserved: Currently none - foundational component uses standard library only]''),
     (216, []),
     (217, ''// #include <[external-lib].h>  // [Justification for external dependency]''),
     (218, []),
     (219, light_rule),
     (220, ''// Defines''),
     (221, light_rule),
     (222, ''//''),
     (223, ''// Preprocessor constants and macros. Magic numbers given meaningful names,''),
     (224, ''// configuration values documented with reasoning. Defines prevent bugs''),
     (225, ''// from typos and make intent clear.''),
     (226, ''//''),
     (227, ''// See: standards/code/4-block/sections/setup/CWS-SECTION-SETUP-002-constants.md''),
     (228, []),
     (229, ''//--- [Category Name] Constants ---''),
     (230, ''// [Brief explanation of this group and their purpose]''),
     (231, []),
     (232, ''// #define [CONSTANT_NAME] [value]  // [Purpose and reasoning]''),
     (233, ''// #define [ANOTHER_CONST] [value]  // [Inline context]''),
     (234, []),
     (235, ''//--- Defaults ---''),
     (236, ''// Default values for optional configuration.''),
     (237, []),
     (238, ''// #define DEFAULT_[THING] [value]  // Used when [thing] not configured''),
     (239, []),
     (240, ''//--- Macros ---''),
     (241, ''// Function-like macros (use sparingly - prefer inline functions when possible)''),
     (242, []),
     (243, ''// #define [MACRO_NAME](x) ((x) * 2)  // [Purpose - wrap args in parens]''),
     (244, []),
     (245, light_rule),
     (246, ''// Type Definitions''),
     (247, light_rule),
     (248, ''//''),
     (249, ''// Data structures organized bottom-up: simple building blocks first,''),
     (250, ''// then composed structures. This organization reveals dependencies.'')]"

definition c_header_0251 :: "line list" where
  "c_header_0251 =
    [(251, ''// Use typedef for cleaner type names.''),
     (252, ''//''),
     (253, ''// See: standards/code/4-block/sections/setup/CWS-SECTION-SETUP-004-types.md''),
     (254, []),
     (255, ''//--- Enumerations ---''),
     (256, ''// Named constants for discrete values.''),
     (257, []),
     (258, ''// // [EnumName] represents [what these values mean].''),
     (259, ''// //''),
     (260, ''// // Values:''),
     (261, ''// //   - [VALUE_NAME]: [meaning and when used]''),
     (262, ''// //   - [VALUE_NAME]: [meaning and when used]''),
     (263, ''// typedef enum {''),
     (264, ''//     [ENUM_PREFIX]_[VALUE1],  // [Inline explanation]''),
     (265, ''//     [ENUM_PREFIX]_[VALUE2],  // [Inline explanation]''),
     (266, ''//     [ENUM_PREFIX]_COUNT      // Sentinel for array sizing''),
     (267, ''// } [EnumName];''),
     (268, []),
     (269, ''//--- Building Blocks ---''),
     (270, ''// Simple foundational types used throughout this component.''),
     (271, ''// These are the atoms - other types compose from these.''),
     (272, []),
     (273, ''// // [TypeName] represents [what this models].''),
     (274, ''// //''),
     (275, ''// // [2-4 sentences: what it represents, when used, key constraints]''),
     (276, ''// //''),
     (277, ''// // Fields:''),
     (278, ''// //   - [field_name]: [purpose and meaning]''),
     (279, ''// //   - [field_name]: [purpose, units if applicable, constraints]''),
     (280, ''// //''),
     (281, ''// // Example:''),
     (282, ''// //   [TypeName] t = { .field1 = value1, .field2 = value2 };''),
     (283, ''// typedef struct {''),
     (284, ''//     [type] [field_name];  // [Inline explanation]''),
     (285, ''//     [type] [field_name];  // [Inline explanation]''),
     (286, ''// } [TypeName];''),
     (287, []),
     (288, ''//--- Composed Types ---''),
     (289, ''// Complex types built from building blocks above.''),
     (290, ''// Document the composition relationship explicitly.''),
     (291, []),
     (292, ''// // [ComposedType] combines [building blocks] to represent [concept].''),
     (293, ''// //''),
     (294, ''// // [Explain relationships: why these pieces go together]''),
     (295, ''// //''),
     (296, ''// // Fields:''),
     (297, ''// //   - [field_name]: [purpose]''),
     (298, ''// //   - [block_field]: Uses [BuildingBlock] for [reason]''),
     (299, ''// typedef struct {''),
     (300, ''//     [type] [field_name];         // [Purpose]'')]"

definition c_header_0301 :: "line list" where
  "c_header_0301 =
    [(301, ''//     [BuildingBlock] block_field; // Composition from above''),
     (302, ''// } [ComposedType];''),
     (303, []),
     (304, ''//--- Configuration Types ---''),
     (305, ''// Options and settings passed to functions.''),
     (306, ''// Document default values and valid ranges.''),
     (307, []),
     (308, ''// // [Config] holds configuration options for [component].''),
     (309, ''// //''),
     (310, ''// // Fields:''),
     (311, ''// //   - [field]: [purpose] (default: [value])''),
     (312, ''// typedef struct {''),
     (313, ''//     [type] [field];  // [Purpose] (default: [zero value behavior])''),
     (314, ''// } [Config];''),
     (315, []),
     (316, ''//--- Opaque Types ---''),
     (317, ''// Forward declarations for types whose internals are hidden.''),
     (318, ''// Implementation in .c file, consumers use pointers only.''),
     (319, []),
     (320, ''// // [OpaqueType] - opaque handle (internals in .c file)''),
     (321, ''// typedef struct [OpaqueType] [OpaqueType];''),
     (322, []),
     (323, ''//--- Error Codes ---''),
     (324, ''// Return codes for error handling (C doesn't have exceptions).''),
     (325, []),
     (326, ''// // [ErrorCode] represents error conditions from [component].''),
     (327, ''// typedef enum {''),
     (328, ''//     [PREFIX]_OK = 0,           // Success''),
     (329, ''//     [PREFIX]_ERR_INVALID,      // Invalid input''),
     (330, ''//     [PREFIX]_ERR_NOMEM,        // Memory allocation failed''),
     (331, ''//     [PREFIX]_ERR_IO,           // I/O operation failed''),
     (332, ''// } [ErrorCode];''),
     (333, []),
     (334, light_rule),
     (335, ''// Function Prototypes''),
     (336, light_rule),
     (337, ''//''),
     (338, ''// Declarations for functions implemented in the corresponding .c file.''),
     (339, ''// Headers declare the interface - what functions exist and their signatures.''),
     (340, ''// Implementations go in CODE-C-001 source file.''),
     (341, ''//''),
     (342, ''// See: standards/code/4-block/sections/setup/CWS-SECTION-SETUP-005-type-methods.md''),
     (343, ''//''),
     (344, ''// Note: C doesn't have methods. Functions that operate on types take''),
     (345, ''// the type as a parameter (usually pointer for modification).''),
     (346, []),
     (347, ''//--- Lifecycle Functions ---''),
     (348, ''// Create, initialize, and destroy instances.''),
     (349, []),
     (350, ''// // [type]_create allocates and initializes a new [TypeName].'')]"

definition c_header_0351 :: "line list" where
  "c_header_0351 =
    [(351, ''// //''),
     (352, ''// // Returns: Pointer to new instance, or NULL on failure.''),
     (353, ''// //          Caller must call [type]_destroy when done.''),
     (354, ''// [TypeName]* [type]_create(void);''),
     (355, []),
     (356, ''// // [type]_init initializes an existing [TypeName] (stack-allocated).''),
     (357, ''// //''),
     (358, ''// // Parameters:''),
     (359, ''// //   self: Pointer to uninitialized instance''),
     (360, ''// //''),
     (361, ''// // Returns: 0 on success, error code on failure.''),
     (362, ''// int [type]_init([TypeName]* self);''),
     (363, []),
     (364, ''// // [type]_destroy frees resources associated with [TypeName].''),
     (365, ''// //''),
     (366, ''// // Parameters:''),
     (367, ''// //   self: Pointer to instance (NULL-safe)''),
     (368, ''// void [type]_destroy([TypeName]* self);''),
     (369, []),
     (370, ''//--- Accessor Functions ---''),
     (371, ''// Get and set values (when encapsulation needed).''),
     (372, []),
     (373, ''// // [type]_get_[field] returns the [field] value.''),
     (374, ''// [FieldType] [type]_get_[field](const [TypeName]* self);''),
     (375, []),
     (376, ''// // [type]_set_[field] updates the [field] value.''),
     (377, ''// void [type]_set_[field]([TypeName]* self, [FieldType] value);''),
     (378, []),
     (379, ''//--- Conversion Functions ---''),
     (380, ''// Transform between types or formats.''),
     (381, []),
     (382, ''// // [type]_to_string converts [TypeName] to string representation.''),
     (383, ''// //''),
     (384, ''// // Parameters:''),
     (385, ''// //   self: Instance to convert''),
     (386, ''// //   buf: Output buffer''),
     (387, ''// //   buf_size: Size of output buffer''),
     (388, ''// //''),
     (389, ''// // Returns: Number of characters written (excluding null terminator),''),
     (390, ''// //          or negative error code.''),
     (391, ''// int [type]_to_string(const [TypeName]* self, char* buf, size_t buf_size);''),
     (392, []),
     (393, light_rule),
     (394, ''// Extern Declarations''),
     (395, light_rule),
     (396, ''//''),
     (397, ''// Global variables declared here, defined in .c file. Use sparingly -''),
     (398, ''// prefer constants (#define) for fixed values and function parameters''),
     (399, ''// for dynamic behavior. Extern variables are typically: global state,''),
     (400, ''// shared configuration, or cross-file data.'')]"

definition c_header_0401 :: "line list" where
  "c_header_0401 =
    [(401, ''//''),
     (402, ''// See: standards/code/4-block/sections/setup/CWS-SECTION-SETUP-003-variables.md''),
     (403, []),
     (404, ''//--- Global State ---''),
     (405, ''// Variables shared across multiple compilation units.''),
     (406, ''// Declared here with extern, defined in .c file.''),
     (407, []),
     (408, ''// // [g_variable_name] [what it holds and purpose].''),
     (409, ''// //''),
     (410, ''// // Defined in: [source_file].c''),
     (411, ''// // Thread-safety: [safe/unsafe - describe synchronization if any]''),
     (412, ''// extern [type] [g_variable_name];''),
     (413, []),
     (414, ''//--- Configuration State ---''),
     (415, ''// Runtime-modifiable settings. Document default values and valid ranges.''),
     (416, []),
     (417, ''// // [g_config_var] controls [behavior].''),
     (418, ''// //''),
     (419, ''// // Default: [value]. Valid range: [min] to [max].''),
     (420, ''// // Modified by: [what changes this - functions, initialization]''),
     (421, ''// extern [type] [g_config_var];''),
     (422, []),
     (423, ''//--- Callback Types ---''),
     (424, ''// Function pointer types for callbacks and hooks.''),
     (425, []),
     (426, ''// // [CallbackName] is called when [event/condition].''),
     (427, ''// //''),
     (428, ''// // Parameters:''),
     (429, ''// //   [param]: [purpose]''),
     (430, ''// //''),
     (431, ''// // Returns: [what return value means]''),
     (432, ''// typedef [return_type] (*[CallbackName])([parameters]);''),
     (433, []),
     (434, ''// [Reserved: Additional extern declarations as component develops]''),
     (435, []),
     (436, block_rule),
     (437, ''// END SETUP''),
     (438, block_rule),
     (439, []),
     (440, block_rule),
     (441, ''// BODY''),
     (442, block_rule),
     (443, ''//''),
     (444, ''// For BODY structure explanation, see: standards/code/4-block/CWS-STD-007-CODE-body-block.md''),
     (445, ''//''),
     (446, ''// NOTE: C headers declare interfaces, they do NOT contain implementations.''),
     (447, ''// All function bodies belong in the corresponding .c source file.''),
     (448, ''// This BODY section documents the declared interface structure.''),
     (449, []),
     (450, light_rule)]"

definition c_header_0451 :: "line list" where
  "c_header_0451 =
    [(451, ''// Organizational Chart - Declared Interface Structure''),
     (452, light_rule),
     (453, ''// Maps the interface this header exposes. Provides navigation for both''),
     (454, ''// consumers (what's available to use) and implementers (what to implement).''),
     (455, ''//''),
     (456, ''// See: standards/code/4-block/sections/body/CWS-SECTION-BODY-001-organizational-chart.md''),
     (457, ''//''),
     (458, ''// Declared Interface (by category):''),
     (459, ''//''),
     (460, ''//   Public APIs (Exported Functions)''),
     (461, ''//   '' @ box_tee @ box_light @ box_light @ '' [function_name]() '' @ arrow_right @ '' [brief purpose]''),
     (462, ''//   '' @ box_tee @ box_light @ box_light @ '' [function_name]() '' @ arrow_right @ '' [brief purpose]''),
     (463, ''//   '' @ box_corner @ box_light @ box_light @ '' [function_name]() '' @ arrow_right @ '' [brief purpose]''),
     (464, ''//''),
     (465, ''//   Lifecycle Functions''),
     (466, ''//   '' @ box_tee @ box_light @ box_light @ '' [type]_create() '' @ arrow_right @ '' allocate and initialize''),
     (467, ''//   '' @ box_tee @ box_light @ box_light @ '' [type]_init() '' @ arrow_right @ '' initialize existing''),
     (468, ''//   '' @ box_corner @ box_light @ box_light @ '' [type]_destroy() '' @ arrow_right @ '' cleanup resources''),
     (469, ''//''),
     (470, ''//   Accessors''),
     (471, ''//   '' @ box_tee @ box_light @ box_light @ '' [type]_get_[field]() '' @ arrow_right @ '' read value''),
     (472, ''//   '' @ box_corner @ box_light @ box_light @ '' [type]_set_[field]() '' @ arrow_right @ '' write value''),
     (473, ''//''),
     (474, ''// Type Definitions:''),
     (475, ''//   '' @ box_tee @ box_light @ box_light @ '' [TypeName] '' @ arrow_right @ '' [brief description]''),
     (476, ''//   '' @ box_tee @ box_light @ box_light @ '' [EnumName] '' @ arrow_right @ '' [brief description]''),
     (477, ''//   '' @ box_corner @ box_light @ box_light @ '' [ErrorCode] '' @ arrow_right @ '' [brief description]''),
     (478, ''//''),
     (479, ''// Implementation Location:''),
     (480, ''//   All function implementations in: [source_file].c (see CODE-C-001)''),
     (481, ''//''),
     (482, ''// Declared Units:''),
     (483, ''// - [X] types total''),
     (484, ''// - [X] enums''),
     (485, ''// - [X] function prototypes''),
     (486, ''// - [X] extern variables''),
     (487, ''//''),
     (488, ''// See: standards/code/4-block/sections/body/CWS-SECTION-BODY-005-public-apis.md''),
     (489, []),
     (490, light_rule),
     (491, ''// Helpers/Utilities - Internal Support Declarations''),
     (492, light_rule),
     (493, ''// Foundation function declarations used internally by this component.''),
     (494, ''// Bottom rungs of the ladder - simple, focused, reusable utilities.''),
     (495, ''// Usually NOT exported (static in .c file), but declared here if needed''),
     (496, ''// across multiple .c files in the same component.''),
     (497, ''//''),
     (498, ''// See: standards/code/4-block/sections/body/CWS-SECTION-BODY-002-helpers.md''),
     (499, ''//''),
     (500, ''// Note: Most helpers are static in .c file and don't appear here.'')]"

definition c_header_0501 :: "line list" where
  "c_header_0501 =
    [(501, ''// Only declare helpers that need visibility across compilation units.''),
     (502, ''//''),
     (503, ''// [Reserved: Internal helpers typically static in .c - add if cross-file needed]''),
     (504, []),
     (505, ''// // [helper_name] [does what - internal use only].''),
     (506, ''// //''),
     (507, ''// // Parameters:''),
     (508, ''// //   [param]: [purpose]''),
     (509, ''// //''),
     (510, ''// // Returns: [what's returned]''),
     (511, ''// //''),
     (512, ''// // Note: Internal helper - not part of public API.''),
     (513, ''// [return_type] [helper_name]([parameters]);''),
     (514, []),
     (515, light_rule),
     (516, ''// Core Operations - Business Logic Declarations''),
     (517, light_rule),
     (518, ''// Component-specific function declarations implementing primary purpose.''),
     (519, ''// Middle rungs of the ladder - the actual work gets done here.''),
     (520, ''// Organized by operational categories below.''),
     (521, ''//''),
     (522, ''// See: standards/code/4-block/sections/body/CWS-SECTION-BODY-003-core-operations.md''),
     (523, ''//''),
     (524, ''// Implementation: All function bodies in corresponding .c file.''),
     (525, []),
     (526, light_rule),
     (527, ''// [Category 1 Name] - [Purpose]''),
     (528, light_rule),
     (529, ''// What These Do:''),
     (530, ''// [High-level description of this category of operations]''),
     (531, ''//''),
     (532, ''// Extension Point:''),
     (533, ''// To add new [operation type], add declaration here following [naming pattern],''),
     (534, ''// then implement in .c file.''),
     (535, []),
     (536, ''// // [function_name] [does what].''),
     (537, ''// //''),
     (538, ''// // Parameters:''),
     (539, ''// //   [param]: [purpose]''),
     (540, ''// //''),
     (541, ''// // Returns: [what's returned]''),
     (542, ''// //''),
     (543, ''// // Health Impact:''),
     (544, ''// //   Success: +X points''),
     (545, ''// //   Failure: -X points''),
     (546, ''// [return_type] [function_name]([parameters]);''),
     (547, []),
     (548, light_rule),
     (549, ''// [Category 2 Name] - [Purpose]''),
     (550, light_rule)]"

definition c_header_0551 :: "line list" where
  "c_header_0551 =
    [(551, ''// [Same documentation pattern as Category 1]''),
     (552, []),
     (553, ''// [Reserved: Additional core operation declarations as component develops]''),
     (554, []),
     (555, light_rule),
     (556, ''// Error Handling - Error Types and Recovery Declarations''),
     (557, light_rule),
     (558, ''// Error handling declarations ensuring component handles failures gracefully.''),
     (559, ''// Documents error codes, error checking functions, and recovery patterns.''),
     (560, ''//''),
     (561, ''// See: standards/code/4-block/sections/body/CWS-SECTION-BODY-004-error-handling.md''),
     (562, ''//''),
     (563, ''// Design Principle: [Blocking/Non-blocking] - [Brief explanation]''),
     (564, ''//''),
     (565, ''// Error Codes: See SETUP \"Error Codes\" section for [ErrorCode] enum.''),
     (566, ''//''),
     (567, ''// Recovery Strategy:''),
     (568, ''//   - [Error type 1]: [How handled]''),
     (569, ''//   - [Error type 2]: [How handled]''),
     (570, []),
     (571, ''// // [component]_get_error_string returns human-readable error description.''),
     (572, ''// //''),
     (573, ''// // Parameters:''),
     (574, ''// //   err: Error code from [ErrorCode] enum''),
     (575, ''// //''),
     (576, ''// // Returns: Static string describing the error (do not free).''),
     (577, ''// const char* [component]_get_error_string([ErrorCode] err);''),
     (578, []),
     (579, ''// // [component]_is_error checks if return value indicates error.''),
     (580, ''// //''),
     (581, ''// // Parameters:''),
     (582, ''// //   result: Return value to check''),
     (583, ''// //''),
     (584, ''// // Returns: true if result indicates error, false otherwise.''),
     (585, ''// bool [component]_is_error(int result);''),
     (586, []),
     (587, ''// [Reserved: Additional error handling declarations as patterns emerge]''),
     (588, []),
     (589, light_rule),
     (590, ''// Public APIs - Exported Interface Declarations''),
     (591, light_rule),
     (592, ''// Exported function declarations defining component's public interface.''),
     (593, ''// Top rungs of the ladder - these are what consumers call.''),
     (594, ''// Simple by design - complexity lives in core operations.''),
     (595, ''//''),
     (596, ''// See: standards/code/4-block/sections/body/CWS-SECTION-BODY-005-public-apis.md''),
     (597, ''//''),
     (598, ''// Organization: Group public APIs by purpose using category dividers.''),
     (599, ''// Common categories: Initialization, Creation, Operations, Health, Cleanup''),
     (600, [])]"

definition c_header_0601 :: "line list" where
  "c_header_0601 =
    [(601, ''// '' @ box_double @ box_double @ box_double @ '' [Category Name] '' @ box_double @ box_double @ box_double),
     (602, []),
     (603, ''// // [PublicFunctionName] [does what at high level].''),
     (604, ''// //''),
     (605, ''// // What It Does:''),
     (606, ''// // [Detailed explanation of complete operation]''),
     (607, ''// //''),
     (608, ''// // Parameters:''),
     (609, ''// //   [param]: [purpose]''),
     (610, ''// //''),
     (611, ''// // Returns: [what's returned]''),
     (612, ''// //''),
     (613, ''// // Health Impact:''),
     (614, ''// //   Success: +X points''),
     (615, ''// //   Failure: -X points''),
     (616, ''// //''),
     (617, ''// // Example:''),
     (618, ''// //   [return_type] result = [PublicFunctionName](params);''),
     (619, ''// //   if ([component]_is_error(result)) {''),
     (620, ''// //       // handle error''),
     (621, ''// //   }''),
     (622, ''// [return_type] [PublicFunctionName]([parameters]);''),
     (623, []),
     (624, ''// [Reserved: Additional public API declarations as component develops]''),
     (625, []),
     (626, block_rule),
     (627, ''// END BODY''),
     (628, block_rule),
     (629, []),
     (630, block_rule),
     (631, ''// CLOSING''),
     (632, block_rule),
     (633, ''//''),
     (634, ''// For CLOSING structure explanation, see: standards/code/4-block/CWS-STD-008-CODE-closing-block.md''),
     (635, ''//''),
     (636, light_rule),
     (637, ''// Code Validation: Header (Declaration Only)''),
     (638, light_rule),
     (639, ''// For Code Validation section explanation, see: standards/code/4-block/sections/closing/CWS-SECTION-CLOSING-001-code-validation.md''),
     (640, ''//''),
     (641, ''// Header Validation:''),
     (642, ''//   - Include the header without errors (self-contained)''),
     (643, ''//   - No missing type definitions or forward declarations''),
     (644, ''//   - No circular include dependencies''),
     (645, ''//   - Include guards work correctly (no redefinition errors)''),
     (646, ''//   - All function prototypes match implementations in .c file''),
     (647, ''//''),
     (648, ''// Build Verification:''),
     (649, ''//   - gcc -fsyntax-only -Wall -Wextra [header].h (syntax check)''),
     (650, ''//   - gcc -c -Wall -Wextra [source].c (compiles with header)'')]"

definition c_header_0651 :: "line list" where
  "c_header_0651 =
    [(651, ''//   - clang -fsyntax-only -Wall -Wextra [header].h (alternative)''),
     (652, ''//   - cppcheck --enable=all [header].h (static analysis)''),
     (653, ''//''),
     (654, ''// Self-Containment Test:''),
     (655, ''//   // Create test file that only includes this header''),
     (656, ''//   #include \"[header].h\"''),
     (657, ''//   int main(void) { return 0; }''),
     (658, ''//   // Must compile without errors''),
     (659, ''//''),
     (660, ''// Integration Testing:''),
     (661, ''//   - Test with actual consuming code''),
     (662, ''//   - Verify declarations match implementations''),
     (663, ''//   - Check ABI compatibility if shared library''),
     (664, ''//   - valgrind --leak-check=full ./test (memory check)''),
     (665, ''//''),
     (666, light_rule),
     (667, ''// Code Execution: None (Header)''),
     (668, light_rule),
     (669, ''// For Code Execution section explanation, see: standards/code/4-block/sections/closing/CWS-SECTION-CLOSING-002-code-execution.md''),
     (670, ''//''),
     (671, ''// This is a HEADER file - declarations only, no execution.''),
     (672, ''// All function implementations are in the corresponding .c file.''),
     (673, ''// Headers are included by other files, not executed directly.''),
     (674, ''//''),
     (675, ''// Usage: #include \"[header].h\"''),
     (676, ''//''),
     (677, ''// The header is included by source files, making all declared types,''),
     (678, ''// functions, and constants available. No code executes at include time -''),
     (679, ''// only declarations are processed by the preprocessor.''),
     (680, ''//''),
     (681, ''// Example include and usage:''),
     (682, ''//''),
     (683, ''//     #include \"[header].h\"''),
     (684, ''//''),
     (685, ''//     int main(void) {''),
     (686, ''//         // Use types from header''),
     (687, ''//         [TypeName] instance;''),
     (688, ''//         [type]_init(&instance);''),
     (689, ''//''),
     (690, ''//         // Call functions declared in header''),
     (691, ''//         int result = [PublicFunction](&instance, params);''),
     (692, ''//         if ([component]_is_error(result)) {''),
     (693, ''//             fprintf(stderr, \"Error: %s'' @ backslash @ ''n\", [component]_get_error_string(result));''),
     (694, ''//             return 1;''),
     (695, ''//         }''),
     (696, ''//''),
     (697, ''//         // Cleanup''),
     (698, ''//         [type]_destroy(&instance);''),
     (699, ''//         return 0;''),
     (700, ''//     }'')]"

definition c_header_0701 :: "line list" where
  "c_header_0701 =
    [(701, ''//''),
     (702, light_rule),
     (703, ''// Code Cleanup: None (Header)''),
     (704, light_rule),
     (705, ''// For Code Cleanup section explanation, see: standards/code/4-block/sections/closing/CWS-SECTION-CLOSING-003-code-cleanup.md''),
     (706, ''//''),
     (707, ''// Resource Management (documented for implementers):''),
     (708, ''//   - [Resource type 1]: [How it's managed - malloc/free pattern]''),
     (709, ''//   - [Resource type 2]: [Management strategy]''),
     (710, ''//   - [Resource type 3]: [Cleanup approach]''),
     (711, ''//''),
     (712, ''// Ownership Convention:''),
     (713, ''//   - Functions returning pointers: Caller owns, must free''),
     (714, ''//   - Functions taking pointers: Caller retains ownership unless documented''),
     (715, ''//   - _create() functions: Return owned pointer, use _destroy() to free''),
     (716, ''//   - _init() functions: Initialize caller-owned memory, use _destroy() to cleanup''),
     (717, ''//''),
     (718, ''// Memory Management:''),
     (719, ''//   - C requires manual memory management''),
     (720, ''//   - All malloc() must have corresponding free()''),
     (721, ''//   - Document ownership transfer in function comments''),
     (722, ''//   - Use valgrind to verify no leaks''),
     (723, ''//''),
     (724, ''// Example cleanup pattern:''),
     (725, ''//''),
     (726, ''//     // Stack allocation (automatic cleanup)''),
     (727, ''//     [TypeName] local;''),
     (728, ''//     [type]_init(&local);''),
     (729, ''//     // ... use local ...''),
     (730, ''//     [type]_destroy(&local);  // Cleanup internal resources''),
     (731, ''//''),
     (732, ''//     // Heap allocation (manual cleanup)''),
     (733, ''//     [TypeName]* ptr = [type]_create();''),
     (734, ''//     // ... use ptr ...''),
     (735, ''//     [type]_destroy(ptr);  // Frees ptr and internal resources''),
     (736, ''//''),
     (737, double_rule),
     (738, ''// FINAL DOCUMENTATION''),
     (739, double_rule),
     (740, ''//''),
     (741, light_rule),
     (742, ''// Library Overview & Integration Summary''),
     (743, light_rule),
     (744, ''// For Library Overview section explanation, see: standards/code/4-block/sections/closing/CWS-SECTION-CLOSING-004-library-overview.md''),
     (745, ''//''),
     (746, ''// Purpose: See METADATA \"Purpose & Function\" section above''),
     (747, ''//''),
     (748, ''// Provides: See METADATA \"Key Features\" list above for comprehensive capabilities''),
     (749, ''//''),
     (750, ''// Quick summary (high-level only - details in METADATA):'')]"

definition c_header_0751 :: "line list" where
  "c_header_0751 =
    [(751, ''//   - [1-2 sentence overview of what this library does]''),
     (752, ''//   - [Feature 5]: [What it does]''),
     (753, ''//''),
     (754, ''// Integration Pattern: See METADATA \"Usage & Integration\" section above for''),
     (755, ''// complete step-by-step integration guide''),
     (756, ''//''),
     (757, ''// Public API: See METADATA \"Usage & Integration\" section above for complete''),
     (758, ''// public API list organized by category in typical usage order''),
     (759, ''//''),
     (760, ''// Architecture: See METADATA \"CPI-SI Identity\" section above for complete''),
     (761, ''// architectural role (Rails/Ladder/Baton) explanation''),
     (762, ''//''),
     (763, light_rule),
     (764, ''// Modification Policy''),
     (765, light_rule),
     (766, ''// For Modification Policy section explanation, see: standards/code/4-block/sections/closing/CWS-SECTION-CLOSING-005-modification-policy.md''),
     (767, ''//''),
     (768, ''// Safe to Modify (Extension Points):''),
     (769, ''//   '' @ check_button @ '' Add new [functions/types/constants] (follow existing patterns)''),
     (770, ''//   '' @ check_button @ '' Add new [helper functions] in appropriate groups''),
     (771, ''//   '' @ check_button @ '' Extend [specific feature] (add more [specific thing])''),
     (772, ''//   '' @ check_button @ '' [Other safe modification]''),
     (773, ''//   '' @ check_button @ '' [Other safe modification]''),
     (774, ''//''),
     (775, ''// Modify with Extreme Care (Breaking Changes):''),
     (776, ''//   '' @ warning_sign @ variation_16 @ '' Public API function signatures - breaks all calling code''),
     (777, ''//   '' @ warning_sign @ variation_16 @ '' [Exported struct] fields - breaks code accessing fields directly''),
     (778, ''//   '' @ warning_sign @ variation_16 @ '' [Critical system behavior] - affects all users''),
     (779, ''//   '' @ warning_sign @ variation_16 @ '' [Data format/protocol] - breaks parsing tools''),
     (780, ''//   '' @ warning_sign @ variation_16 @ '' [Core algorithm] - affects correctness''),
     (781, ''//''),
     (782, ''// NEVER Modify (Foundational Rails):''),
     (783, ''//   '' @ cross_mark @ '' 4-block structure (METADATA, SETUP, BODY, CLOSING)''),
     (784, ''//   '' @ cross_mark @ '' [Fundamental principle 1]''),
     (785, ''//   '' @ cross_mark @ '' [Fundamental principle 2]''),
     (786, ''//   '' @ cross_mark @ '' [Architectural pattern - Rails/etc]''),
     (787, ''//   '' @ cross_mark @ '' [Core design invariant]''),
     (788, ''//''),
     (789, ''// Validation After Modifications:''),
     (790, ''//   See \"Code Validation\" section in GROUP 1: CODING above for comprehensive''),
     (791, ''//   testing requirements, build verification, and integration testing procedures.''),
     (792, ''//''),
     (793, light_rule),
     (794, ''// Ladder and Baton Flow''),
     (795, light_rule),
     (796, ''// For Ladder and Baton Flow section explanation, see: standards/code/4-block/sections/closing/CWS-SECTION-CLOSING-006-ladder-baton-flow.md''),
     (797, ''//''),
     (798, ''// See BODY \"Organizational Chart - Internal Structure\" section above for''),
     (799, ''// complete ladder structure (dependencies) and baton flow (execution paths).''),
     (800, ''//'')]"

definition c_header_0801 :: "line list" where
  "c_header_0801 =
    [(801, ''// The Organizational Chart in BODY provides the detailed map showing:''),
     (802, ''// - All functions and their dependencies (ladder)''),
     (803, ''// - Complete execution flow paths (baton)''),
     (804, ''// - APU count (Available Processing Units)''),
     (805, ''//''),
     (806, ''// Quick architectural summary (details in BODY Organizational Chart):''),
     (807, ''// - [X] public APIs orchestrate [Y] core operations using [Z] helpers''),
     (808, ''// - Ladder: [Brief dependency summary]''),
     (809, ''// - Baton: [Brief execution flow summary]''),
     (810, ''//''),
     (811, light_rule),
     (812, ''// Surgical Update Points (Extension Guide)''),
     (813, light_rule),
     (814, ''// For Surgical Update Points section explanation, see: standards/code/4-block/sections/closing/CWS-SECTION-CLOSING-007-surgical-update-points.md''),
     (815, ''//''),
     (816, ''// See BODY \"Core Operations\" subsection header comments above for detailed''),
     (817, ''// extension points. Each subsection includes \"Extension Point\" guidance showing:''),
     (818, ''// - Where to add new functionality''),
     (819, ''// - What naming pattern to follow''),
     (820, ''// - How to integrate with existing code''),
     (821, ''// - What tests to update''),
     (822, ''//''),
     (823, ''// Quick reference (details in BODY subsection comments):''),
     (824, ''// - Adding [Feature Type 1]: See BODY \"[Subsection Name]\" extension point''),
     (825, ''// - Adding [Feature Type 2]: See BODY \"[Another Subsection]\" extension point''),
     (826, ''// - Adding helpers: See BODY \"Helpers/Utilities\" section organization''),
     (827, ''//''),
     (828, light_rule),
     (829, ''// Performance Considerations''),
     (830, light_rule),
     (831, ''// For Performance Considerations section explanation, see: standards/code/4-block/sections/closing/CWS-SECTION-CLOSING-008-performance-considerations.md''),
     (832, ''//''),
     (833, ''// See SETUP section above for performance characteristics:''),
     (834, ''// - Constants: Performance notes on configuration values (memory per operation, etc.)''),
     (835, ''// - Types: Memory usage and complexity analysis for data structures''),
     (836, ''//''),
     (837, ''// See BODY function docstrings above for operation-specific performance notes.''),
     (838, ''//''),
     (839, ''// Quick summary (details in SETUP/BODY above):''),
     (840, ''// - [Most expensive operation]: [Brief cost summary - see BODY docstring for details]''),
     (841, ''// - [Memory characteristics]: [Brief summary - see SETUP types for details]''),
     (842, ''// - Key optimization: [1-2 sentence tip]''),
     (843, ''//''),
     (844, light_rule),
     (845, ''// Troubleshooting Guide''),
     (846, light_rule),
     (847, ''// For Troubleshooting Guide section explanation, see: standards/code/4-block/sections/closing/CWS-SECTION-CLOSING-009-troubleshooting-guide.md''),
     (848, ''//''),
     (849, ''// See BODY function docstrings above for operation-specific troubleshooting.''),
     (850, ''// Functions that commonly have issues include \"Troubleshooting\" sections in'')]"

definition c_header_0851 :: "line list" where
  "c_header_0851 =
    [(851, ''// their docstrings with problem/check/solution patterns.''),
     (852, ''//''),
     (853, ''// Quick reference (details in BODY function docstrings above):''),
     (854, ''// - [Common Problem 1]: See [FunctionName] docstring troubleshooting section''),
     (855, ''// - [Common Problem 2]: See [AnotherFunction] docstring troubleshooting section''),
     (856, ''//   - Expected: [If this is normal behavior]''),
     (857, ''//   - Note: [Design decision explanation]''),
     (858, ''//''),
     (859, ''// Problem: [Common problem 5]''),
     (860, ''//   - Cause: [Root cause]''),
     (861, ''//   - Solution: [How to fix]''),
     (862, ''//   - Note: [Additional context]''),
     (863, ''//''),
     (864, light_rule),
     (865, ''// Related Components & Dependencies''),
     (866, light_rule),
     (867, ''// For Related Components section explanation, see: standards/code/4-block/sections/closing/CWS-SECTION-CLOSING-010-related-components.md''),
     (868, ''//''),
     (869, ''// See METADATA \"Dependencies\" section above for complete dependency information:''),
     (870, ''// - Dependencies (What This Needs): Standard Library, External, Internal''),
     (871, ''// - Dependents (What Uses This): Commands, Libraries, Tools that depend on this''),
     (872, ''// - Integration Points: How other systems connect and interact''),
     (873, ''//''),
     (874, ''// Quick summary (details in METADATA Dependencies section above):''),
     (875, ''// - Key dependencies: [1-2 most critical dependencies]''),
     (876, ''// - Primary consumers: [Who uses this most]''),
     (877, ''//''),
     (878, ''// Parallel Implementation (if applicable):''),
     (879, ''//   - [Language 1] version: [path to parallel implementation]''),
     (880, ''//   - [Language 2] version: [path to this or related implementation]''),
     (881, ''//   - Shared [format/protocol/philosophy]: [What's consistent across implementations]''),
     (882, ''//''),
     (883, light_rule),
     (884, ''// Future Expansions & Roadmap''),
     (885, light_rule),
     (886, ''// For Future Expansions section explanation, see: standards/code/4-block/sections/closing/CWS-SECTION-CLOSING-011-future-expansions.md''),
     (887, ''//''),
     (888, ''// Planned Features:''),
     (889, ''//   '' @ check_mark @ '' [Completed feature] - COMPLETED''),
     (890, ''//   '' @ check_mark @ '' [Another completed feature] - COMPLETED''),
     (891, ''//   '' @ hourglass @ '' [Planned feature 1]''),
     (892, ''//   '' @ hourglass @ '' [Planned feature 2]''),
     (893, ''//   '' @ hourglass @ '' [Planned feature 3]''),
     (894, ''//   '' @ hourglass @ '' [Planned feature 4]''),
     (895, ''//''),
     (896, ''// Research Areas:''),
     (897, ''//   - [Research direction 1]''),
     (898, ''//   - [Research direction 2]''),
     (899, ''//   - [Research direction 3]''),
     (900, ''//   - [Research direction 4]'')]"

definition c_header_0901 :: "line list" where
  "c_header_0901 =
    [(901, ''//   - [Research direction 5]''),
     (902, ''//''),
     (903, ''// Integration Targets:''),
     (904, ''//   - [System/language to integrate with]''),
     (905, ''//   - [Another integration target]''),
     (906, ''//   - [Cross-system correlation or bridging]''),
     (907, ''//   - [Centralized or distributed capability]''),
     (908, ''//   - [Monitoring or analysis system]''),
     (909, ''//   - [Performance or profiling integration]''),
     (910, ''//''),
     (911, ''// Known Limitations to Address:''),
     (912, ''//   - [Limitation 1 - description]''),
     (913, ''//   - [Limitation 2 - description]''),
     (914, ''//   - [Limitation 3 - description]''),
     (915, ''//   - [Limitation 4 - description]''),
     (916, ''//   - [Limitation 5 - description]''),
     (917, ''//   - [Limitation 6 - description]''),
     (918, ''//''),
     (919, ''// Version History:''),
     (920, ''//''),
     (921, ''// See METADATA \"Authorship & Lineage\" section above for brief version changelog.''),
     (922, ''// Comprehensive version history with full context below:''),
     (923, ''//''),
     (924, ''//   [X.Y.Z] ([Date]) - [Version description]''),
     (925, ''//         - [Major feature or change]''),
     (926, ''//         - [Another feature or change]''),
     (927, ''//         - [Another feature or change]''),
     (928, ''//         - [Design decision or principle established]''),
     (929, ''//''),
     (930, light_rule),
     (931, ''// Closing Note''),
     (932, light_rule),
     (933, ''// For Closing Note section explanation, see: standards/code/4-block/sections/closing/CWS-SECTION-CLOSING-012-closing-note.md''),
     (934, ''//''),
     (935, ''// This header is [architectural role - RAILS/LADDER/BATON description].''),
     (936, ''// [Explain its place in the ecosystem and what depends on it].''),
     (937, ''//''),
     (938, ''// Modify thoughtfully - changes here affect [scope of impact]. Header changes''),
     (939, ''// break ABI compatibility for all consumers.''),
     (940, ''//''),
     (941, ''// For questions, issues, or contributions:''),
     (942, ''//   - Review the modification policy above''),
     (943, ''//   - Follow the 4-block structure pattern''),
     (944, ''//   - Test thoroughly before committing:''),
     (945, ''//     gcc -fsyntax-only -Wall -Wextra [header].h''),
     (946, ''//     gcc -c -Wall -Wextra [source].c''),
     (947, ''//     valgrind --leak-check=full ./test''),
     (948, ''//   - Document all changes comprehensively (What/Why/How pattern)''),
     (949, ''//   - Ensure include guards remain unique''),
     (950, ''//'')]"

definition c_header_0951 :: "line list" where
  "c_header_0951 =
    [(951, ''// \"[Relevant Scripture verse]\" - [Reference]''),
     (952, ''//''),
     (953, light_rule),
     (954, ''// Quick Reference: Usage Examples''),
     (955, light_rule),
     (956, ''// For Quick Reference section explanation, see: standards/code/4-block/sections/closing/CWS-SECTION-CLOSING-013-quick-reference.md''),
     (957, ''//''),
     (958, ''// Basic Include:''),
     (959, ''//   #include \"[header].h\"''),
     (960, ''//''),
     (961, ''// Type Declaration:''),
     (962, ''//   [TypeName] instance;''),
     (963, ''//   [type]_init(&instance);''),
     (964, ''//   // ... use instance ...''),
     (965, ''//   [type]_destroy(&instance);''),
     (966, ''//''),
     (967, ''// Heap Allocation:''),
     (968, ''//   [TypeName]* ptr = [type]_create();''),
     (969, ''//   if (ptr == NULL) { /* handle error */ }''),
     (970, ''//   // ... use ptr ...''),
     (971, ''//   [type]_destroy(ptr);''),
     (972, ''//''),
     (973, ''// Error Checking:''),
     (974, ''//   int result = [function](params);''),
     (975, ''//   if ([component]_is_error(result)) {''),
     (976, ''//       const char* msg = [component]_get_error_string(result);''),
     (977, ''//       fprintf(stderr, \"Error: %s'' @ backslash @ ''n\", msg);''),
     (978, ''//   }''),
     (979, ''//''),
     (980, ''// Compile Commands:''),
     (981, ''//   gcc -c -Wall -Wextra -std=c11 [source].c''),
     (982, ''//   gcc -o [program] [source].o -l[library]''),
     (983, ''//''),
     (984, block_rule),
     (985, ''// END CLOSING''),
     (986, block_rule),
     (987, []),
     (988, ''#endif // [HEADER_GUARD_NAME]_H''),
     (989, [])]"

definition c_header :: "line list" where
  "c_header =
     c_header_0001 @
     c_header_0051 @
     c_header_0101 @
     c_header_0151 @
     c_header_0201 @
     c_header_0251 @
     c_header_0301 @
     c_header_0351 @
     c_header_0401 @
     c_header_0451 @
     c_header_0501 @
     c_header_0551 @
     c_header_0601 @
     c_header_0651 @
     c_header_0701 @
     c_header_0751 @
     c_header_0801 @
     c_header_0851 @
     c_header_0901 @
     c_header_0951"

definition repository :: "(string \<times> line list) list" where
  "repository =
    [(''src/skills/create-from-template/references/code-templates/c/CODE-C-001-C-source.c'', c_source),
     (''src/skills/create-from-template/references/compiler-templates/c/c-header.h'', c_header)]"

text \<open>The size of a file in bytes: every line ends in a newline.\<close>

definition file_size :: "line list \<Rightarrow> nat" where
  "file_size f = sum_list (map (\<lambda>(n, l). length l + 1) f)"

definition extension :: "string \<Rightarrow> string" where
  "extension p = rev (takeWhile (\<lambda>c. c \<noteq> CHR ''.'') (rev p))"


section \<open>Lexical structure\<close>

text \<open>
  What a C translator sees of a line is the text in front of the first \<^verbatim>\<open>//\<close>. Neither file
  has a block comment, a string literal or a character constant outside a \<^verbatim>\<open>//\<close> comment, and
  no line ends in a backslash (\<open>spliced\<close> below), so comments can be removed line by line.
\<close>

fun code_part :: "string \<Rightarrow> string" where
  "code_part (a # b # cs) = (if a = CHR ''/'' \<and> b = CHR ''/'' then [] else a # code_part (b # cs))"
| "code_part cs = cs"

definition is_space :: "char \<Rightarrow> bool" where
  "is_space c = (c = CHR 0x20 \<or> c = CHR 0x09)"

definition is_blank :: "string \<Rightarrow> bool" where
  "is_blank s = list_all is_space s"

text \<open>The lines that are not blank once their comment is removed, with the comment removed.\<close>

definition active_lines :: "line list \<Rightarrow> line list" where
  "active_lines f = filter (\<lambda>(n, l). \<not> is_blank l) (map (\<lambda>(n, l). (n, code_part l)) f)"

text \<open>The lines a translator would join with their successor: those ending in a backslash.\<close>

definition spliced :: "line list \<Rightarrow> line list" where
  "spliced f = filter (\<lambda>(n, l). l \<noteq> [] \<and> last l = CHR 0x5C) f"

text \<open>
  Splitting a line into tokens: the characters that satisfy \<open>p\<close> are collected into words,
  white space separates, and every other character is a token of its own.
\<close>

fun scan :: "(char \<Rightarrow> bool) \<Rightarrow> string \<Rightarrow> string \<Rightarrow> string list" where
  "scan p w [] = (if w = [] then [] else [w])"
| "scan p w (c # cs) =
    (if p c then scan p (w @ [c]) cs
     else (if w = [] then [] else [w]) @ (if is_space c then [] else [[c]]) @ scan p [] cs)"

definition is_ident_char :: "char \<Rightarrow> bool" where
  "is_ident_char c = (c \<in> set ''abcdefghijklmnopqrstuvwxyzABCDEFGHIJKLMNOPQRSTUVWXYZ0123456789_'')"

definition c_tokens :: "string \<Rightarrow> string list" where
  "c_tokens l = scan is_ident_char [] l"


text \<open>The token sequence of a file: what is left of it for the compiler proper.\<close>

definition tokens :: "line list \<Rightarrow> string list" where
  "tokens f = concat (map (\<lambda>(n, l). c_tokens l) (active_lines f))"

text \<open>The identifiers, keywords and numbers among the tokens: the words a file uses.\<close>

definition identifiers :: "line list \<Rightarrow> string list" where
  "identifiers f = filter (list_all is_ident_char) (tokens f)"

text \<open>The tokens between the first opening brace and the closing brace that follows it.\<close>

definition body_tokens :: "string list \<Rightarrow> string list" where
  "body_tokens ts = takeWhile (\<lambda>t. t \<noteq> ''}'') (tl (dropWhile (\<lambda>t. t \<noteq> ''{'') ts))"

definition loop_keywords :: "string list" where
  "loop_keywords = [''while'', ''for'', ''do'', ''goto'']"

definition type_keywords :: "string list" where
  "type_keywords = [''struct'', ''enum'', ''typedef'', ''union'']"

definition storage_keywords :: "string list" where
  "storage_keywords = [''static'', ''extern'']"


section \<open>The 4-block layout\<close>

text \<open>
  A block ends at its marker line, \<^verbatim>\<open>// END\<close> followed by the block's name. Inside a block
  a section is introduced by a divider: a title line between two light rules.
\<close>

definition end_markers :: "line list \<Rightarrow> line list" where
  "end_markers f = filter (\<lambda>(n, l). prefix ''// END '' l) f"

definition rule_numbers :: "line list \<Rightarrow> nat list" where
  "rule_numbers f = map fst (filter (\<lambda>(n, l). l = light_rule) f)"

definition lines_at :: "nat list \<Rightarrow> line list \<Rightarrow> line list" where
  "lines_at ns f = filter (\<lambda>(n, l). n \<in> set ns) f"

text \<open>The line after a rule is a title when the line after the title is a rule again.\<close>

definition headed :: "nat list \<Rightarrow> nat list" where
  "headed rs = map Suc (filter (\<lambda>r. r + 2 \<in> set rs) rs)"

definition section_titles :: "line list \<Rightarrow> line list" where
  "section_titles f = lines_at (headed (rule_numbers f)) f"

text \<open>The number of the line that ends the block of the given name (0 when there is none).\<close>

definition block_end :: "string \<Rightarrow> line list \<Rightarrow> nat" where
  "block_end name f =
    (case filter (\<lambda>(n, l). l = ''// END '' @ name) (end_markers f) of [] \<Rightarrow> 0 | (n, l) # rest \<Rightarrow> n)"

definition between :: "nat \<Rightarrow> nat \<Rightarrow> line list \<Rightarrow> line list" where
  "between lo hi ls = filter (\<lambda>(n, l). lo < n \<and> n < hi) ls"

text \<open>The dividers of the SETUP block: those after the end of METADATA and before the end of SETUP.\<close>

definition setup_sections :: "line list \<Rightarrow> line list" where
  "setup_sections f = between (block_end ''METADATA'' f) (block_end ''SETUP'' f) (section_titles f)"


section \<open>Preprocessing directives\<close>

text \<open>
  A line whose first token is \<^verbatim>\<open>#\<close> is a directive; the token after it names the
  directive, and for \<^verbatim>\<open>#ifndef\<close> and \<^verbatim>\<open>#define\<close> the token after that is the macro name.
  Tokens are those of \<open>c_tokens\<close>, so \<^verbatim>\<open>#include"x.h"\<close> and \<^verbatim>\<open># include\<close> are read like
  \<^verbatim>\<open>#include "x.h"\<close>. A \<^verbatim>\<open>#\<close> alone on its line is the null directive. Of a macro only
  the name is kept, and the directives other than the five named here are not modelled:
  a file that uses one is refused.
\<close>

datatype directive =
    Ifndef string
  | Define string
  | Endif
  | Include string
  | Null_directive
  | Unsupported string
  | Text string

definition operand :: "string list \<Rightarrow> string" where
  "operand ws = (case ws of [] \<Rightarrow> [] | w # rest \<Rightarrow> w)"

definition directive_of :: "string \<Rightarrow> directive" where
  "directive_of l =
    (case c_tokens l of
       [] \<Rightarrow> Text l
     | h # ts \<Rightarrow>
         if h \<noteq> ''#'' then Text l
         else (case ts of
             [] \<Rightarrow> Null_directive
           | d # rest \<Rightarrow>
               if d = ''ifndef'' then Ifndef (operand rest)
               else if d = ''define'' then Define (operand rest)
               else if d = ''endif'' then Endif
               else if d = ''include'' then Include (concat rest)
               else Unsupported d))"

definition directives :: "line list \<Rightarrow> (nat \<times> directive) list" where
  "directives f = map (\<lambda>(n, l). (n, directive_of l)) (active_lines f)"

definition is_include :: "directive \<Rightarrow> bool" where
  "is_include d = (case d of Include h \<Rightarrow> True | _ \<Rightarrow> False)"

definition active_includes :: "line list \<Rightarrow> (nat \<times> directive) list" where
  "active_includes f = filter (\<lambda>(n, d). is_include d) (directives f)"

text \<open>
  A macro name must be an identifier: letters, digits and underscores, not starting with
  a digit. The preprocessor rejects \<^verbatim>\<open>#ifndef\<close> and \<^verbatim>\<open>#define\<close> with anything else in that
  place, and \<^verbatim>\<open>#define\<close> of the identifier \<^verbatim>\<open>defined\<close>.
\<close>

definition is_identifier :: "string \<Rightarrow> bool" where
  "is_identifier w = (w \<noteq> [] \<and> list_all is_ident_char w \<and> hd w \<notin> set ''0123456789'')"

text \<open>
  A translation unit's preprocessing state: the macros defined so far and the text lines
  passed on to the compiler. While a file is read, \<open>conds\<close> is the stack of its open
  conditionals, \<open>True\<close> for one whose branch is taken; text is passed on, macros are
  defined and macro names are checked only when every open conditional is taken. A file
  must close the conditionals it opens. Reading stops at the first error.
\<close>

record pp_state =
  macros :: "string set"
  emitted :: "string list"

datatype pp_error =
    Bad_macro_name nat
  | Stray_endif nat
  | Unterminated_conditional
  | Unresolved_include nat
  | Unsupported_directive nat

definition active :: "bool list \<Rightarrow> bool" where
  "active conds = list_all (\<lambda>c. c) conds"

fun pp_lines :: "(nat \<times> directive) list \<Rightarrow> bool list \<Rightarrow> pp_state \<Rightarrow> pp_error + pp_state" where
  "pp_lines [] conds s = (if conds = [] then Inr s else Inl Unterminated_conditional)"
| "pp_lines ((n, Ifndef m) # ds) conds s =
    (if active conds \<and> \<not> is_identifier m then Inl (Bad_macro_name n)
     else pp_lines ds ((active conds \<and> m \<notin> macros s) # conds) s)"
| "pp_lines ((n, Define m) # ds) conds s =
    (if \<not> active conds then pp_lines ds conds s
     else if is_identifier m \<and> m \<noteq> ''defined''
       then pp_lines ds conds (s\<lparr>macros := insert m (macros s)\<rparr>)
     else Inl (Bad_macro_name n))"
| "pp_lines ((n, Endif) # ds) conds s =
    (case conds of [] \<Rightarrow> Inl (Stray_endif n) | c # cs \<Rightarrow> pp_lines ds cs s)"
| "pp_lines ((n, Include h) # ds) conds s =
    (if active conds then Inl (Unresolved_include n) else pp_lines ds conds s)"
| "pp_lines ((n, Null_directive) # ds) conds s = pp_lines ds conds s"
| "pp_lines ((n, Unsupported w) # ds) conds s = Inl (Unsupported_directive n)"
| "pp_lines ((n, Text t) # ds) conds s =
    pp_lines ds conds (if active conds then s\<lparr>emitted := emitted s @ [t]\<rparr> else s)"



section \<open>The entry point\<close>

text \<open>
  The only function either file defines is \<^verbatim>\<open>int main(int argc, char* argv[])\<close> of the C
  template (lines 838 to 870). Every line of its body is a comment except \<^verbatim>\<open>return 0;\<close>.
  The process it runs in is modelled by the file-level variables, the two output streams
  and the number of its threads; \<open>main\<close> takes the process state and returns it with the
  exit code.
\<close>

record world =
  globals :: "string \<Rightarrow> int option"
  stdout_bytes :: string
  stderr_bytes :: string
  threads :: nat

text \<open>A C \<^verbatim>\<open>int\<close>: 32 bits, read as a signed value by \<open>sint\<close>.\<close>

type_synonym c_int = "32 word"

definition main :: "c_int \<Rightarrow> string list \<Rightarrow> world \<Rightarrow> c_int \<times> world" where
  "main argc argv w = (0, w)"


text \<open>
  For reference in the lemmas on the pieces of the files: the numbers of the title lines
  of each file, as \<open>headed\<close> computes them from the rules.
\<close>

abbreviation (input) c_source_title_numbers :: "nat list" where
  "c_source_title_numbers \<equiv> [165, 200, 231, 264, 337, 370, 424, 469, 506, 514, 599, 604, 678, 760, 802, 873, 941, 963, 993, 1011, 1028, 1044, 1064, 1083, 1130, 1150]"

abbreviation (input) c_header_title_numbers :: "nat list" where
  "c_header_title_numbers \<equiv> [186, 220, 246, 335, 394, 451, 491, 516, 527, 549, 556, 590, 637, 667, 703, 742, 764, 794, 812, 829, 845, 865, 884, 931, 954]"


section \<open>Reading the files piece by piece\<close>

text \<open>
  Every selection of lines used below is a filter, so it can be computed on the pieces of
  a file and the results appended.
\<close>

lemma file_size_append: "file_size (a @ b) = file_size a + file_size b"
  by (simp add: file_size_def)

lemma active_lines_append: "active_lines (a @ b) = active_lines a @ active_lines b"
  by (simp add: active_lines_def)

lemma spliced_append: "spliced (a @ b) = spliced a @ spliced b"
  by (simp add: spliced_def)

lemma end_markers_append: "end_markers (a @ b) = end_markers a @ end_markers b"
  by (simp add: end_markers_def)

lemma rule_numbers_append: "rule_numbers (a @ b) = rule_numbers a @ rule_numbers b"
  by (simp add: rule_numbers_def)

lemma lines_at_append: "lines_at ns (a @ b) = lines_at ns a @ lines_at ns b"
  by (simp add: lines_at_def)

lemma upt_join: "i \<le> j \<Longrightarrow> j \<le> k \<Longrightarrow> [i..<j] @ [j..<k] = [i..<k]"
  by (metis le_Suc_ex upt_add_eq_append)

text \<open>
  The simplifier reads a long list fastest when no rewrite step leaves a conditional
  around the unread rest of the list. The following equations put the selections into
  that shape.
\<close>

lemma filter_as_concat: "filter P xs = concat (map (\<lambda>x. if P x then [x] else []) xs)"
  by (induction xs) simp_all

lemma prefix_as_take: "prefix p l = (take (length p) l = p)"
  by (metis append_eq_conv_conj prefix_def take_is_prefix)

lemma last_pair: "last (x # y # ys) = last (y # ys)"
  by simp

lemma last_single: "last [x] = x"
  by simp

lemma split_guard:
  "length a = n \<Longrightarrow> (l = a @ b) = (if take n l = a then drop n l = b else False)"
proof (cases "take n l = a")
  case True
  assume len: "length a = n"
  have "l = take n l @ drop n l" by simp
  with True len show ?thesis by (metis append_eq_conv_conj)
next
  case False
  assume "length a = n"
  with False show ?thesis by auto
qed

lemma rule_guard:
  "(l = light_rule) =
    (if take 6 l = ''// '' @ box_light
     then drop 6 l = box_light @ box_light @ box_light @ box_light @ box_light @ box_light @ box_light
       @ box_light8 @ box_light8 @ box_light8 @ box_light8 @ box_light8 @ box_light8 @ box_light8
     else False)"
  using split_guard [of "''// '' @ box_light" 6 l
    "box_light @ box_light @ box_light @ box_light @ box_light @ box_light @ box_light
       @ box_light8 @ box_light8 @ box_light8 @ box_light8 @ box_light8 @ box_light8 @ box_light8"]
  by simp

subsection \<open>The pieces of the two files\<close>

lemma c_source_0001_lines:
  "map fst c_source_0001 = [1..<51]"
  "file_size c_source_0001 = 2241"
  "active_lines c_source_0001 = []"
  "spliced c_source_0001 = []"
  "end_markers c_source_0001 = []"
  "rule_numbers c_source_0001 = []"
  "lines_at c_source_title_numbers c_source_0001 = []"
  unfolding file_size_def active_lines_def spliced_def end_markers_def rule_numbers_def lines_at_def
    filter_as_concat prefix_as_take
  by (simp_all add: c_source_0001_def is_blank_def is_space_def rule_guard last_pair last_single upt_rec del: last.simps)

lemma c_source_0051_lines:
  "map fst c_source_0051 = [51..<101]"
  "file_size c_source_0051 = 1248"
  "active_lines c_source_0051 = []"
  "spliced c_source_0051 = []"
  "end_markers c_source_0051 = []"
  "rule_numbers c_source_0051 = []"
  "lines_at c_source_title_numbers c_source_0051 = []"
  unfolding file_size_def active_lines_def spliced_def end_markers_def rule_numbers_def lines_at_def
    filter_as_concat prefix_as_take
  by (simp_all add: c_source_0051_def is_blank_def is_space_def rule_guard last_pair last_single del: last.simps)

lemma c_source_0101_lines:
  "map fst c_source_0101 = [101..<151]"
  "file_size c_source_0101 = 2047"
  "active_lines c_source_0101 = []"
  "spliced c_source_0101 = []"
  "end_markers c_source_0101 = [(138, ''// END METADATA'')]"
  "rule_numbers c_source_0101 = []"
  "lines_at c_source_title_numbers c_source_0101 = []"
  unfolding file_size_def active_lines_def spliced_def end_markers_def rule_numbers_def lines_at_def
    filter_as_concat prefix_as_take
  by (simp_all add: c_source_0101_def is_blank_def is_space_def rule_guard last_pair last_single del: last.simps)

lemma c_source_0151_lines:
  "map fst c_source_0151 = [151..<201]"
  "file_size c_source_0151 = 2671"
  "active_lines c_source_0151 = []"
  "spliced c_source_0151 = []"
  "end_markers c_source_0151 = []"
  "rule_numbers c_source_0151 = [164, 166, 199]"
  "lines_at c_source_title_numbers c_source_0151 = [(165, ''// Includes''), (200, ''// Defines (Constants)'')]"
  unfolding file_size_def active_lines_def spliced_def end_markers_def rule_numbers_def lines_at_def
    filter_as_concat prefix_as_take
  by (simp_all add: c_source_0151_def is_blank_def is_space_def rule_guard last_pair last_single del: last.simps)

lemma c_source_0201_lines:
  "map fst c_source_0201 = [201..<251]"
  "file_size c_source_0201 = 2412"
  "active_lines c_source_0201 = []"
  "spliced c_source_0201 = []"
  "end_markers c_source_0201 = []"
  "rule_numbers c_source_0201 = [201, 230, 232]"
  "lines_at c_source_title_numbers c_source_0201 = [(231, ''// Static Variables'')]"
  unfolding file_size_def active_lines_def spliced_def end_markers_def rule_numbers_def lines_at_def
    filter_as_concat prefix_as_take
  by (simp_all add: c_source_0201_def is_blank_def is_space_def rule_guard last_pair last_single del: last.simps)

lemma c_source_0251_lines:
  "map fst c_source_0251 = [251..<301]"
  "file_size c_source_0251 = 1993"
  "active_lines c_source_0251 = []"
  "spliced c_source_0251 = []"
  "end_markers c_source_0251 = []"
  "rule_numbers c_source_0251 = [263, 265]"
  "lines_at c_source_title_numbers c_source_0251 = [(264, ''// Types'')]"
  unfolding file_size_def active_lines_def spliced_def end_markers_def rule_numbers_def lines_at_def
    filter_as_concat prefix_as_take
  by (simp_all add: c_source_0251_def is_blank_def is_space_def rule_guard last_pair last_single del: last.simps)

lemma c_source_0301_lines:
  "map fst c_source_0301 = [301..<351]"
  "file_size c_source_0301 = 2025"
  "active_lines c_source_0301 = []"
  "spliced c_source_0301 = []"
  "end_markers c_source_0301 = []"
  "rule_numbers c_source_0301 = [336, 338]"
  "lines_at c_source_title_numbers c_source_0301 = [(337, ''// Function Prototypes'')]"
  unfolding file_size_def active_lines_def spliced_def end_markers_def rule_numbers_def lines_at_def
    filter_as_concat prefix_as_take
  by (simp_all add: c_source_0301_def is_blank_def is_space_def rule_guard last_pair last_single del: last.simps)

lemma c_source_0351_lines:
  "map fst c_source_0351 = [351..<401]"
  "file_size c_source_0351 = 2284"
  "active_lines c_source_0351 = []"
  "spliced c_source_0351 = []"
  "end_markers c_source_0351 = []"
  "rule_numbers c_source_0351 = [369, 371]"
  "lines_at c_source_title_numbers c_source_0351 = [(370, ''// File-Level State (Rails Pattern)'')]"
  unfolding file_size_def active_lines_def spliced_def end_markers_def rule_numbers_def lines_at_def
    filter_as_concat prefix_as_take
  by (simp_all add: c_source_0351_def is_blank_def is_space_def rule_guard last_pair last_single del: last.simps)

lemma c_source_0401_lines:
  "map fst c_source_0401 = [401..<451]"
  "file_size c_source_0401 = 2272"
  "active_lines c_source_0401 = []"
  "spliced c_source_0401 = []"
  "end_markers c_source_0401 = [(414, ''// END SETUP'')]"
  "rule_numbers c_source_0401 = [423, 425]"
  "lines_at c_source_title_numbers c_source_0401 = [(424, ''// Organizational Chart - Internal Structure'')]"
  unfolding file_size_def active_lines_def spliced_def end_markers_def rule_numbers_def lines_at_def
    filter_as_concat prefix_as_take
  by (simp_all add: c_source_0401_def is_blank_def is_space_def rule_guard last_pair last_single del: last.simps)

lemma c_source_0451_lines:
  "map fst c_source_0451 = [451..<501]"
  "file_size c_source_0451 = 2064"
  "active_lines c_source_0451 = []"
  "spliced c_source_0451 = []"
  "end_markers c_source_0451 = []"
  "rule_numbers c_source_0451 = [468, 470]"
  "lines_at c_source_title_numbers c_source_0451 = [(469, ''// Helpers/Utilities - Internal Support'')]"
  unfolding file_size_def active_lines_def spliced_def end_markers_def rule_numbers_def lines_at_def
    filter_as_concat prefix_as_take
  by (simp_all add: c_source_0451_def is_blank_def is_space_def rule_guard last_pair last_single del: last.simps)

lemma c_source_0501_lines:
  "map fst c_source_0501 = [501..<551]"
  "file_size c_source_0501 = 2295"
  "active_lines c_source_0501 = []"
  "spliced c_source_0501 = []"
  "end_markers c_source_0501 = []"
  "rule_numbers c_source_0501 = [505, 507, 513, 515]"
  "lines_at c_source_title_numbers c_source_0501 = [(506, ''// Core Operations - Business Logic''), (514, ''// [Category 1 Name] - [Purpose]'')]"
  unfolding file_size_def active_lines_def spliced_def end_markers_def rule_numbers_def lines_at_def
    filter_as_concat prefix_as_take
  by (simp_all add: c_source_0501_def is_blank_def is_space_def rule_guard last_pair last_single del: last.simps)

lemma c_source_0551_lines:
  "map fst c_source_0551 = [551..<601]"
  "file_size c_source_0551 = 2044"
  "active_lines c_source_0551 = []"
  "spliced c_source_0551 = []"
  "end_markers c_source_0551 = []"
  "rule_numbers c_source_0551 = [598, 600]"
  "lines_at c_source_title_numbers c_source_0551 = [(599, ''// [Category 2 Name] - [Purpose]'')]"
  unfolding file_size_def active_lines_def spliced_def end_markers_def rule_numbers_def lines_at_def
    filter_as_concat prefix_as_take
  by (simp_all add: c_source_0551_def is_blank_def is_space_def rule_guard last_pair last_single del: last.simps)

lemma c_source_0601_lines:
  "map fst c_source_0601 = [601..<651]"
  "file_size c_source_0601 = 2355"
  "active_lines c_source_0601 = []"
  "spliced c_source_0601 = []"
  "end_markers c_source_0601 = []"
  "rule_numbers c_source_0601 = [603, 605]"
  "lines_at c_source_title_numbers c_source_0601 = [(604, ''// Error Handling/Recovery Patterns'')]"
  unfolding file_size_def active_lines_def spliced_def end_markers_def rule_numbers_def lines_at_def
    filter_as_concat prefix_as_take
  by (simp_all add: c_source_0601_def is_blank_def is_space_def rule_guard last_pair last_single del: last.simps)

lemma c_source_0651_lines:
  "map fst c_source_0651 = [651..<701]"
  "file_size c_source_0651 = 1787"
  "active_lines c_source_0651 = []"
  "spliced c_source_0651 = []"
  "end_markers c_source_0651 = []"
  "rule_numbers c_source_0651 = [677, 679]"
  "lines_at c_source_title_numbers c_source_0651 = [(678, ''// Public APIs - Exported Interface'')]"
  unfolding file_size_def active_lines_def spliced_def end_markers_def rule_numbers_def lines_at_def
    filter_as_concat prefix_as_take
  by (simp_all add: c_source_0651_def is_blank_def is_space_def rule_guard last_pair last_single del: last.simps)

lemma c_source_0701_lines:
  "map fst c_source_0701 = [701..<751]"
  "file_size c_source_0701 = 1803"
  "active_lines c_source_0701 = []"
  "spliced c_source_0701 = []"
  "end_markers c_source_0701 = [(750, ''// END BODY'')]"
  "rule_numbers c_source_0701 = []"
  "lines_at c_source_title_numbers c_source_0701 = []"
  unfolding file_size_def active_lines_def spliced_def end_markers_def rule_numbers_def lines_at_def
    filter_as_concat prefix_as_take
  by (simp_all add: c_source_0701_def is_blank_def is_space_def rule_guard last_pair last_single del: last.simps)

lemma c_source_0751_lines:
  "map fst c_source_0751 = [751..<801]"
  "file_size c_source_0751 = 2246"
  "active_lines c_source_0751 = []"
  "spliced c_source_0751 = []"
  "end_markers c_source_0751 = []"
  "rule_numbers c_source_0751 = [759, 761]"
  "lines_at c_source_title_numbers c_source_0751 = [(760, ''// Code Validation: [executableName] (Command)'')]"
  unfolding file_size_def active_lines_def spliced_def end_markers_def rule_numbers_def lines_at_def
    filter_as_concat prefix_as_take
  by (simp_all add: c_source_0751_def is_blank_def is_space_def rule_guard last_pair last_single del: last.simps)

lemma c_source_0801_lines:
  "map fst c_source_0801 = [801..<851]"
  "file_size c_source_0801 = 1763"
  "active_lines c_source_0801 = [(838, ''int main(int argc, char* argv[]) {'')]"
  "spliced c_source_0801 = []"
  "end_markers c_source_0801 = []"
  "rule_numbers c_source_0801 = [801, 803]"
  "lines_at c_source_title_numbers c_source_0801 = [(802, ''// Code Execution: [executableName] (Command)'')]"
  unfolding file_size_def active_lines_def spliced_def end_markers_def rule_numbers_def lines_at_def
    filter_as_concat prefix_as_take
  by (simp_all add: c_source_0801_def is_blank_def is_space_def rule_guard last_pair last_single del: last.simps)

lemma c_source_0851_lines:
  "map fst c_source_0851 = [851..<901]"
  "file_size c_source_0851 = 1917"
  "active_lines c_source_0851 = [(869, ''    return 0;''), (870, ''}'')]"
  "spliced c_source_0851 = []"
  "end_markers c_source_0851 = []"
  "rule_numbers c_source_0851 = [872, 874]"
  "lines_at c_source_title_numbers c_source_0851 = [(873, ''// Code Cleanup: [executableName] (Command)'')]"
  unfolding file_size_def active_lines_def spliced_def end_markers_def rule_numbers_def lines_at_def
    filter_as_concat prefix_as_take
  by (simp_all add: c_source_0851_def is_blank_def is_space_def rule_guard last_pair last_single del: last.simps)

lemma c_source_0901_lines:
  "map fst c_source_0901 = [901..<951]"
  "file_size c_source_0901 = 2060"
  "active_lines c_source_0901 = []"
  "spliced c_source_0901 = []"
  "end_markers c_source_0901 = []"
  "rule_numbers c_source_0901 = [940, 942]"
  "lines_at c_source_title_numbers c_source_0901 = [(941, ''// Executable Overview & Usage Summary'')]"
  unfolding file_size_def active_lines_def spliced_def end_markers_def rule_numbers_def lines_at_def
    filter_as_concat prefix_as_take
  by (simp_all add: c_source_0901_def is_blank_def is_space_def rule_guard last_pair last_single del: last.simps)

lemma c_source_0951_lines:
  "map fst c_source_0951 = [951..<1001]"
  "file_size c_source_0951 = 2875"
  "active_lines c_source_0951 = []"
  "spliced c_source_0951 = []"
  "end_markers c_source_0951 = []"
  "rule_numbers c_source_0951 = [962, 964, 992, 994]"
  "lines_at c_source_title_numbers c_source_0951 = [(963, ''// Modification Policy''), (993, ''// Ladder and Baton Flow'')]"
  unfolding file_size_def active_lines_def spliced_def end_markers_def rule_numbers_def lines_at_def
    filter_as_concat prefix_as_take
  by (simp_all add: c_source_0951_def is_blank_def is_space_def rule_guard last_pair last_single del: last.simps)

lemma c_source_1001_lines:
  "map fst c_source_1001 = [1001..<1051]"
  "file_size c_source_1001 = 3453"
  "active_lines c_source_1001 = []"
  "spliced c_source_1001 = []"
  "end_markers c_source_1001 = []"
  "rule_numbers c_source_1001 = [1010, 1012, 1027, 1029, 1043, 1045]"
  "lines_at c_source_title_numbers c_source_1001 = [(1011, ''// Surgical Update Points (Extension Guide)''), (1028, ''// Performance Considerations''), (1044, ''// Troubleshooting Guide'')]"
  unfolding file_size_def active_lines_def spliced_def end_markers_def rule_numbers_def lines_at_def
    filter_as_concat prefix_as_take
  by (simp_all add: c_source_1001_def is_blank_def is_space_def rule_guard last_pair last_single del: last.simps)

lemma c_source_1051_lines:
  "map fst c_source_1051 = [1051..<1101]"
  "file_size c_source_1051 = 2716"
  "active_lines c_source_1051 = []"
  "spliced c_source_1051 = []"
  "end_markers c_source_1051 = []"
  "rule_numbers c_source_1051 = [1063, 1065, 1082, 1084]"
  "lines_at c_source_title_numbers c_source_1051 = [(1064, ''// Related Components & Dependencies''), (1083, ''// Future Expansions & Roadmap'')]"
  unfolding file_size_def active_lines_def spliced_def end_markers_def rule_numbers_def lines_at_def
    filter_as_concat prefix_as_take
  by (simp_all add: c_source_1051_def is_blank_def is_space_def rule_guard last_pair last_single del: last.simps)

lemma c_source_1101_lines:
  "map fst c_source_1101 = [1101..<1151]"
  "file_size c_source_1101 = 2356"
  "active_lines c_source_1101 = []"
  "spliced c_source_1101 = []"
  "end_markers c_source_1101 = []"
  "rule_numbers c_source_1101 = [1129, 1131, 1149]"
  "lines_at c_source_title_numbers c_source_1101 = [(1130, ''// Closing Note''), (1150, ''// Quick Reference: Usage Examples'')]"
  unfolding file_size_def active_lines_def spliced_def end_markers_def rule_numbers_def lines_at_def
    filter_as_concat prefix_as_take
  by (simp_all add: c_source_1101_def is_blank_def is_space_def rule_guard last_pair last_single del: last.simps)

lemma c_source_1151_lines:
  "map fst c_source_1151 = [1151..<1195]"
  "file_size c_source_1151 = 1506"
  "active_lines c_source_1151 = []"
  "spliced c_source_1151 = []"
  "end_markers c_source_1151 = [(1192, ''// END CLOSING'')]"
  "rule_numbers c_source_1151 = [1151]"
  "lines_at c_source_title_numbers c_source_1151 = []"
  unfolding file_size_def active_lines_def spliced_def end_markers_def rule_numbers_def lines_at_def
    filter_as_concat prefix_as_take
  by (simp_all add: c_source_1151_def is_blank_def is_space_def rule_guard last_pair last_single del: last.simps)

lemmas c_source_pieces =
  c_source_0001_lines
  c_source_0051_lines
  c_source_0101_lines
  c_source_0151_lines
  c_source_0201_lines
  c_source_0251_lines
  c_source_0301_lines
  c_source_0351_lines
  c_source_0401_lines
  c_source_0451_lines
  c_source_0501_lines
  c_source_0551_lines
  c_source_0601_lines
  c_source_0651_lines
  c_source_0701_lines
  c_source_0751_lines
  c_source_0801_lines
  c_source_0851_lines
  c_source_0901_lines
  c_source_0951_lines
  c_source_1001_lines
  c_source_1051_lines
  c_source_1101_lines
  c_source_1151_lines

lemma c_source_numbers: "map fst c_source = [1..<1195]"
  by (simp add: c_source_def c_source_pieces upt_join del: upt_rec_numeral)

lemma c_source_size: "file_size c_source = 52433"
  by (simp add: c_source_def c_source_pieces file_size_append)

lemma c_source_active:
  "active_lines c_source =
    [(838, ''int main(int argc, char* argv[]) {''), (869, ''    return 0;''), (870, ''}'')]"
  by (simp add: c_source_def c_source_pieces active_lines_append)

lemma c_source_spliced: "spliced c_source = []"
  by (simp add: c_source_def c_source_pieces spliced_append)

lemma c_source_end_markers:
  "end_markers c_source =
    [(138, ''// END METADATA''), (414, ''// END SETUP''), (750, ''// END BODY''), (1192, ''// END CLOSING'')]"
  by (simp add: c_source_def c_source_pieces end_markers_append)

lemma c_source_rule_numbers:
  "rule_numbers c_source =
    [164, 166, 199, 201, 230, 232, 263, 265, 336, 338, 369, 371, 423, 425, 468, 470, 505, 507, 513, 515, 598, 600, 603, 605, 677, 679, 759, 761, 801, 803, 872, 874, 940, 942, 962, 964, 992, 994, 1010, 1012, 1027, 1029, 1043, 1045, 1063, 1065, 1082, 1084, 1129, 1131, 1149, 1151]"
  by (simp add: c_source_def c_source_pieces rule_numbers_append)

lemma c_source_titles_at:
  "lines_at c_source_title_numbers c_source =
    [(165, ''// Includes''),
     (200, ''// Defines (Constants)''),
     (231, ''// Static Variables''),
     (264, ''// Types''),
     (337, ''// Function Prototypes''),
     (370, ''// File-Level State (Rails Pattern)''),
     (424, ''// Organizational Chart - Internal Structure''),
     (469, ''// Helpers/Utilities - Internal Support''),
     (506, ''// Core Operations - Business Logic''),
     (514, ''// [Category 1 Name] - [Purpose]''),
     (599, ''// [Category 2 Name] - [Purpose]''),
     (604, ''// Error Handling/Recovery Patterns''),
     (678, ''// Public APIs - Exported Interface''),
     (760, ''// Code Validation: [executableName] (Command)''),
     (802, ''// Code Execution: [executableName] (Command)''),
     (873, ''// Code Cleanup: [executableName] (Command)''),
     (941, ''// Executable Overview & Usage Summary''),
     (963, ''// Modification Policy''),
     (993, ''// Ladder and Baton Flow''),
     (1011, ''// Surgical Update Points (Extension Guide)''),
     (1028, ''// Performance Considerations''),
     (1044, ''// Troubleshooting Guide''),
     (1064, ''// Related Components & Dependencies''),
     (1083, ''// Future Expansions & Roadmap''),
     (1130, ''// Closing Note''),
     (1150, ''// Quick Reference: Usage Examples'')]"
  by (simp add: c_source_def c_source_pieces lines_at_append)

lemma c_source_section_titles:
  "section_titles c_source =
    [(165, ''// Includes''),
     (200, ''// Defines (Constants)''),
     (231, ''// Static Variables''),
     (264, ''// Types''),
     (337, ''// Function Prototypes''),
     (370, ''// File-Level State (Rails Pattern)''),
     (424, ''// Organizational Chart - Internal Structure''),
     (469, ''// Helpers/Utilities - Internal Support''),
     (506, ''// Core Operations - Business Logic''),
     (514, ''// [Category 1 Name] - [Purpose]''),
     (599, ''// [Category 2 Name] - [Purpose]''),
     (604, ''// Error Handling/Recovery Patterns''),
     (678, ''// Public APIs - Exported Interface''),
     (760, ''// Code Validation: [executableName] (Command)''),
     (802, ''// Code Execution: [executableName] (Command)''),
     (873, ''// Code Cleanup: [executableName] (Command)''),
     (941, ''// Executable Overview & Usage Summary''),
     (963, ''// Modification Policy''),
     (993, ''// Ladder and Baton Flow''),
     (1011, ''// Surgical Update Points (Extension Guide)''),
     (1028, ''// Performance Considerations''),
     (1044, ''// Troubleshooting Guide''),
     (1064, ''// Related Components & Dependencies''),
     (1083, ''// Future Expansions & Roadmap''),
     (1130, ''// Closing Note''),
     (1150, ''// Quick Reference: Usage Examples'')]"
proof -
  have "headed (rule_numbers c_source) = c_source_title_numbers"
    by (simp add: c_source_rule_numbers headed_def)
  then show ?thesis
    by (simp only: section_titles_def c_source_titles_at)
qed

lemma c_header_0001_lines:
  "map fst c_header_0001 = [1..<51]"
  "file_size c_header_0001 = 2271"
  "active_lines c_header_0001 = [(24, ''#ifndef [HEADER_GUARD_NAME]_H''), (25, ''#define [HEADER_GUARD_NAME]_H'')]"
  "spliced c_header_0001 = []"
  "end_markers c_header_0001 = []"
  "rule_numbers c_header_0001 = []"
  "lines_at c_header_title_numbers c_header_0001 = []"
  unfolding file_size_def active_lines_def spliced_def end_markers_def rule_numbers_def lines_at_def
    filter_as_concat prefix_as_take
  by (simp_all add: c_header_0001_def is_blank_def is_space_def rule_guard last_pair last_single upt_rec del: last.simps)

lemma c_header_0051_lines:
  "map fst c_header_0051 = [51..<101]"
  "file_size c_header_0051 = 1325"
  "active_lines c_header_0051 = []"
  "spliced c_header_0051 = []"
  "end_markers c_header_0051 = []"
  "rule_numbers c_header_0051 = []"
  "lines_at c_header_title_numbers c_header_0051 = []"
  unfolding file_size_def active_lines_def spliced_def end_markers_def rule_numbers_def lines_at_def
    filter_as_concat prefix_as_take
  by (simp_all add: c_header_0051_def is_blank_def is_space_def rule_guard last_pair last_single del: last.simps)

lemma c_header_0101_lines:
  "map fst c_header_0101 = [101..<151]"
  "file_size c_header_0101 = 1581"
  "active_lines c_header_0101 = []"
  "spliced c_header_0101 = []"
  "end_markers c_header_0101 = []"
  "rule_numbers c_header_0101 = []"
  "lines_at c_header_title_numbers c_header_0101 = []"
  unfolding file_size_def active_lines_def spliced_def end_markers_def rule_numbers_def lines_at_def
    filter_as_concat prefix_as_take
  by (simp_all add: c_header_0101_def is_blank_def is_space_def rule_guard last_pair last_single del: last.simps)

lemma c_header_0151_lines:
  "map fst c_header_0151 = [151..<201]"
  "file_size c_header_0151 = 2715"
  "active_lines c_header_0151 = []"
  "spliced c_header_0151 = []"
  "end_markers c_header_0151 = [(161, ''// END METADATA'')]"
  "rule_numbers c_header_0151 = [185, 187]"
  "lines_at c_header_title_numbers c_header_0151 = [(186, ''// Includes'')]"
  unfolding file_size_def active_lines_def spliced_def end_markers_def rule_numbers_def lines_at_def
    filter_as_concat prefix_as_take
  by (simp_all add: c_header_0151_def is_blank_def is_space_def rule_guard last_pair last_single del: last.simps)

lemma c_header_0201_lines:
  "map fst c_header_0201 = [201..<251]"
  "file_size c_header_0201 = 2457"
  "active_lines c_header_0201 = []"
  "spliced c_header_0201 = []"
  "end_markers c_header_0201 = []"
  "rule_numbers c_header_0201 = [219, 221, 245, 247]"
  "lines_at c_header_title_numbers c_header_0201 = [(220, ''// Defines''), (246, ''// Type Definitions'')]"
  unfolding file_size_def active_lines_def spliced_def end_markers_def rule_numbers_def lines_at_def
    filter_as_concat prefix_as_take
  by (simp_all add: c_header_0201_def is_blank_def is_space_def rule_guard last_pair last_single del: last.simps)

lemma c_header_0251_lines:
  "map fst c_header_0251 = [251..<301]"
  "file_size c_header_0251 = 1644"
  "active_lines c_header_0251 = []"
  "spliced c_header_0251 = []"
  "end_markers c_header_0251 = []"
  "rule_numbers c_header_0251 = []"
  "lines_at c_header_title_numbers c_header_0251 = []"
  unfolding file_size_def active_lines_def spliced_def end_markers_def rule_numbers_def lines_at_def
    filter_as_concat prefix_as_take
  by (simp_all add: c_header_0251_def is_blank_def is_space_def rule_guard last_pair last_single del: last.simps)

lemma c_header_0301_lines:
  "map fst c_header_0301 = [301..<351]"
  "file_size c_header_0301 = 2074"
  "active_lines c_header_0301 = []"
  "spliced c_header_0301 = []"
  "end_markers c_header_0301 = []"
  "rule_numbers c_header_0301 = [334, 336]"
  "lines_at c_header_title_numbers c_header_0301 = [(335, ''// Function Prototypes'')]"
  unfolding file_size_def active_lines_def spliced_def end_markers_def rule_numbers_def lines_at_def
    filter_as_concat prefix_as_take
  by (simp_all add: c_header_0301_def is_blank_def is_space_def rule_guard last_pair last_single del: last.simps)

lemma c_header_0351_lines:
  "map fst c_header_0351 = [351..<401]"
  "file_size c_header_0351 = 2028"
  "active_lines c_header_0351 = []"
  "spliced c_header_0351 = []"
  "end_markers c_header_0351 = []"
  "rule_numbers c_header_0351 = [393, 395]"
  "lines_at c_header_title_numbers c_header_0351 = [(394, ''// Extern Declarations'')]"
  unfolding file_size_def active_lines_def spliced_def end_markers_def rule_numbers_def lines_at_def
    filter_as_concat prefix_as_take
  by (simp_all add: c_header_0351_def is_blank_def is_space_def rule_guard last_pair last_single del: last.simps)

lemma c_header_0401_lines:
  "map fst c_header_0401 = [401..<451]"
  "file_size c_header_0401 = 1925"
  "active_lines c_header_0401 = []"
  "spliced c_header_0401 = []"
  "end_markers c_header_0401 = [(437, ''// END SETUP'')]"
  "rule_numbers c_header_0401 = [450]"
  "lines_at c_header_title_numbers c_header_0401 = []"
  unfolding file_size_def active_lines_def spliced_def end_markers_def rule_numbers_def lines_at_def
    filter_as_concat prefix_as_take
  by (simp_all add: c_header_0401_def is_blank_def is_space_def rule_guard last_pair last_single del: last.simps)

lemma c_header_0451_lines:
  "map fst c_header_0451 = [451..<501]"
  "file_size c_header_0451 = 2382"
  "active_lines c_header_0451 = []"
  "spliced c_header_0451 = []"
  "end_markers c_header_0451 = []"
  "rule_numbers c_header_0451 = [452, 490, 492]"
  "lines_at c_header_title_numbers c_header_0451 = [(451, ''// Organizational Chart - Declared Interface Structure''), (491, ''// Helpers/Utilities - Internal Support Declarations'')]"
  unfolding file_size_def active_lines_def spliced_def end_markers_def rule_numbers_def lines_at_def
    filter_as_concat prefix_as_take
  by (simp_all add: c_header_0451_def is_blank_def is_space_def rule_guard last_pair last_single del: last.simps)

lemma c_header_0501_lines:
  "map fst c_header_0501 = [501..<551]"
  "file_size c_header_0501 = 2506"
  "active_lines c_header_0501 = []"
  "spliced c_header_0501 = []"
  "end_markers c_header_0501 = []"
  "rule_numbers c_header_0501 = [515, 517, 526, 528, 548, 550]"
  "lines_at c_header_title_numbers c_header_0501 = [(516, ''// Core Operations - Business Logic Declarations''), (527, ''// [Category 1 Name] - [Purpose]''), (549, ''// [Category 2 Name] - [Purpose]'')]"
  unfolding file_size_def active_lines_def spliced_def end_markers_def rule_numbers_def lines_at_def
    filter_as_concat prefix_as_take
  by (simp_all add: c_header_0501_def is_blank_def is_space_def rule_guard last_pair last_single del: last.simps)

lemma c_header_0551_lines:
  "map fst c_header_0551 = [551..<601]"
  "file_size c_header_0551 = 2523"
  "active_lines c_header_0551 = []"
  "spliced c_header_0551 = []"
  "end_markers c_header_0551 = []"
  "rule_numbers c_header_0551 = [555, 557, 589, 591]"
  "lines_at c_header_title_numbers c_header_0551 = [(556, ''// Error Handling - Error Types and Recovery Declarations''), (590, ''// Public APIs - Exported Interface Declarations'')]"
  unfolding file_size_def active_lines_def spliced_def end_markers_def rule_numbers_def lines_at_def
    filter_as_concat prefix_as_take
  by (simp_all add: c_header_0551_def is_blank_def is_space_def rule_guard last_pair last_single del: last.simps)

lemma c_header_0601_lines:
  "map fst c_header_0601 = [601..<651]"
  "file_size c_header_0601 = 2114"
  "active_lines c_header_0601 = []"
  "spliced c_header_0601 = []"
  "end_markers c_header_0601 = [(627, ''// END BODY'')]"
  "rule_numbers c_header_0601 = [636, 638]"
  "lines_at c_header_title_numbers c_header_0601 = [(637, ''// Code Validation: Header (Declaration Only)'')]"
  unfolding file_size_def active_lines_def spliced_def end_markers_def rule_numbers_def lines_at_def
    filter_as_concat prefix_as_take
  by (simp_all add: c_header_0601_def is_blank_def is_space_def rule_guard last_pair last_single del: last.simps)

lemma c_header_0651_lines:
  "map fst c_header_0651 = [651..<701]"
  "file_size c_header_0651 = 2084"
  "active_lines c_header_0651 = []"
  "spliced c_header_0651 = []"
  "end_markers c_header_0651 = []"
  "rule_numbers c_header_0651 = [666, 668]"
  "lines_at c_header_title_numbers c_header_0651 = [(667, ''// Code Execution: None (Header)'')]"
  unfolding file_size_def active_lines_def spliced_def end_markers_def rule_numbers_def lines_at_def
    filter_as_concat prefix_as_take
  by (simp_all add: c_header_0651_def is_blank_def is_space_def rule_guard last_pair last_single del: last.simps)

lemma c_header_0701_lines:
  "map fst c_header_0701 = [701..<751]"
  "file_size c_header_0701 = 2907"
  "active_lines c_header_0701 = []"
  "spliced c_header_0701 = []"
  "end_markers c_header_0701 = []"
  "rule_numbers c_header_0701 = [702, 704, 741, 743]"
  "lines_at c_header_title_numbers c_header_0701 = [(703, ''// Code Cleanup: None (Header)''), (742, ''// Library Overview & Integration Summary'')]"
  unfolding file_size_def active_lines_def spliced_def end_markers_def rule_numbers_def lines_at_def
    filter_as_concat prefix_as_take
  by (simp_all add: c_header_0701_def is_blank_def is_space_def rule_guard last_pair last_single del: last.simps)

lemma c_header_0751_lines:
  "map fst c_header_0751 = [751..<801]"
  "file_size c_header_0751 = 2885"
  "active_lines c_header_0751 = []"
  "spliced c_header_0751 = []"
  "end_markers c_header_0751 = []"
  "rule_numbers c_header_0751 = [763, 765, 793, 795]"
  "lines_at c_header_title_numbers c_header_0751 = [(764, ''// Modification Policy''), (794, ''// Ladder and Baton Flow'')]"
  unfolding file_size_def active_lines_def spliced_def end_markers_def rule_numbers_def lines_at_def
    filter_as_concat prefix_as_take
  by (simp_all add: c_header_0751_def is_blank_def is_space_def rule_guard last_pair last_single del: last.simps)

lemma c_header_0801_lines:
  "map fst c_header_0801 = [801..<851]"
  "file_size c_header_0801 = 3466"
  "active_lines c_header_0801 = []"
  "spliced c_header_0801 = []"
  "end_markers c_header_0801 = []"
  "rule_numbers c_header_0801 = [811, 813, 828, 830, 844, 846]"
  "lines_at c_header_title_numbers c_header_0801 = [(812, ''// Surgical Update Points (Extension Guide)''), (829, ''// Performance Considerations''), (845, ''// Troubleshooting Guide'')]"
  unfolding file_size_def active_lines_def spliced_def end_markers_def rule_numbers_def lines_at_def
    filter_as_concat prefix_as_take
  by (simp_all add: c_header_0801_def is_blank_def is_space_def rule_guard last_pair last_single del: last.simps)

lemma c_header_0851_lines:
  "map fst c_header_0851 = [851..<901]"
  "file_size c_header_0851 = 2744"
  "active_lines c_header_0851 = []"
  "spliced c_header_0851 = []"
  "end_markers c_header_0851 = []"
  "rule_numbers c_header_0851 = [864, 866, 883, 885]"
  "lines_at c_header_title_numbers c_header_0851 = [(865, ''// Related Components & Dependencies''), (884, ''// Future Expansions & Roadmap'')]"
  unfolding file_size_def active_lines_def spliced_def end_markers_def rule_numbers_def lines_at_def
    filter_as_concat prefix_as_take
  by (simp_all add: c_header_0851_def is_blank_def is_space_def rule_guard last_pair last_single del: last.simps)

lemma c_header_0901_lines:
  "map fst c_header_0901 = [901..<951]"
  "file_size c_header_0901 = 2183"
  "active_lines c_header_0901 = []"
  "spliced c_header_0901 = []"
  "end_markers c_header_0901 = []"
  "rule_numbers c_header_0901 = [930, 932]"
  "lines_at c_header_title_numbers c_header_0901 = [(931, ''// Closing Note'')]"
  unfolding file_size_def active_lines_def spliced_def end_markers_def rule_numbers_def lines_at_def
    filter_as_concat prefix_as_take
  by (simp_all add: c_header_0901_def is_blank_def is_space_def rule_guard last_pair last_single del: last.simps)

lemma c_header_0951_lines:
  "map fst c_header_0951 = [951..<990]"
  "file_size c_header_0951 = 1500"
  "active_lines c_header_0951 = [(988, ''#endif '')]"
  "spliced c_header_0951 = []"
  "end_markers c_header_0951 = [(985, ''// END CLOSING'')]"
  "rule_numbers c_header_0951 = [953, 955]"
  "lines_at c_header_title_numbers c_header_0951 = [(954, ''// Quick Reference: Usage Examples'')]"
  unfolding file_size_def active_lines_def spliced_def end_markers_def rule_numbers_def lines_at_def
    filter_as_concat prefix_as_take
  by (simp_all add: c_header_0951_def is_blank_def is_space_def rule_guard last_pair last_single del: last.simps)

lemmas c_header_pieces =
  c_header_0001_lines
  c_header_0051_lines
  c_header_0101_lines
  c_header_0151_lines
  c_header_0201_lines
  c_header_0251_lines
  c_header_0301_lines
  c_header_0351_lines
  c_header_0401_lines
  c_header_0451_lines
  c_header_0501_lines
  c_header_0551_lines
  c_header_0601_lines
  c_header_0651_lines
  c_header_0701_lines
  c_header_0751_lines
  c_header_0801_lines
  c_header_0851_lines
  c_header_0901_lines
  c_header_0951_lines

lemma c_header_numbers: "map fst c_header = [1..<990]"
  by (simp add: c_header_def c_header_pieces upt_join del: upt_rec_numeral)

lemma c_header_size: "file_size c_header = 45314"
  by (simp add: c_header_def c_header_pieces file_size_append)

lemma c_header_active:
  "active_lines c_header =
    [(24, ''#ifndef [HEADER_GUARD_NAME]_H''), (25, ''#define [HEADER_GUARD_NAME]_H''), (988, ''#endif '')]"
  by (simp add: c_header_def c_header_pieces active_lines_append)

lemma c_header_spliced: "spliced c_header = []"
  by (simp add: c_header_def c_header_pieces spliced_append)

lemma c_header_end_markers:
  "end_markers c_header =
    [(161, ''// END METADATA''), (437, ''// END SETUP''), (627, ''// END BODY''), (985, ''// END CLOSING'')]"
  by (simp add: c_header_def c_header_pieces end_markers_append)

lemma c_header_rule_numbers:
  "rule_numbers c_header =
    [185, 187, 219, 221, 245, 247, 334, 336, 393, 395, 450, 452, 490, 492, 515, 517, 526, 528, 548, 550, 555, 557, 589, 591, 636, 638, 666, 668, 702, 704, 741, 743, 763, 765, 793, 795, 811, 813, 828, 830, 844, 846, 864, 866, 883, 885, 930, 932, 953, 955]"
  by (simp add: c_header_def c_header_pieces rule_numbers_append)

lemma c_header_titles_at:
  "lines_at c_header_title_numbers c_header =
    [(186, ''// Includes''),
     (220, ''// Defines''),
     (246, ''// Type Definitions''),
     (335, ''// Function Prototypes''),
     (394, ''// Extern Declarations''),
     (451, ''// Organizational Chart - Declared Interface Structure''),
     (491, ''// Helpers/Utilities - Internal Support Declarations''),
     (516, ''// Core Operations - Business Logic Declarations''),
     (527, ''// [Category 1 Name] - [Purpose]''),
     (549, ''// [Category 2 Name] - [Purpose]''),
     (556, ''// Error Handling - Error Types and Recovery Declarations''),
     (590, ''// Public APIs - Exported Interface Declarations''),
     (637, ''// Code Validation: Header (Declaration Only)''),
     (667, ''// Code Execution: None (Header)''),
     (703, ''// Code Cleanup: None (Header)''),
     (742, ''// Library Overview & Integration Summary''),
     (764, ''// Modification Policy''),
     (794, ''// Ladder and Baton Flow''),
     (812, ''// Surgical Update Points (Extension Guide)''),
     (829, ''// Performance Considerations''),
     (845, ''// Troubleshooting Guide''),
     (865, ''// Related Components & Dependencies''),
     (884, ''// Future Expansions & Roadmap''),
     (931, ''// Closing Note''),
     (954, ''// Quick Reference: Usage Examples'')]"
  by (simp add: c_header_def c_header_pieces lines_at_append)

lemma c_header_section_titles:
  "section_titles c_header =
    [(186, ''// Includes''),
     (220, ''// Defines''),
     (246, ''// Type Definitions''),
     (335, ''// Function Prototypes''),
     (394, ''// Extern Declarations''),
     (451, ''// Organizational Chart - Declared Interface Structure''),
     (491, ''// Helpers/Utilities - Internal Support Declarations''),
     (516, ''// Core Operations - Business Logic Declarations''),
     (527, ''// [Category 1 Name] - [Purpose]''),
     (549, ''// [Category 2 Name] - [Purpose]''),
     (556, ''// Error Handling - Error Types and Recovery Declarations''),
     (590, ''// Public APIs - Exported Interface Declarations''),
     (637, ''// Code Validation: Header (Declaration Only)''),
     (667, ''// Code Execution: None (Header)''),
     (703, ''// Code Cleanup: None (Header)''),
     (742, ''// Library Overview & Integration Summary''),
     (764, ''// Modification Policy''),
     (794, ''// Ladder and Baton Flow''),
     (812, ''// Surgical Update Points (Extension Guide)''),
     (829, ''// Performance Considerations''),
     (845, ''// Troubleshooting Guide''),
     (865, ''// Related Components & Dependencies''),
     (884, ''// Future Expansions & Roadmap''),
     (931, ''// Closing Note''),
     (954, ''// Quick Reference: Usage Examples'')]"
proof -
  have "headed (rule_numbers c_header) = c_header_title_numbers"
    by (simp add: c_header_rule_numbers headed_def)
  then show ?thesis
    by (simp only: section_titles_def c_header_titles_at)
qed


section \<open>What is left of the files without their comments\<close>

lemma c_source_tokens:
  "tokens c_source =
    [''int'', ''main'', ''('', ''int'', ''argc'', '','', ''char'', ''*'', ''argv'', ''['', '']'', '')'', ''{'',
     ''return'', ''0'', '';'',
     ''}'']"
  by (simp add: tokens_def c_source_active c_tokens_def is_ident_char_def is_space_def)

lemma c_header_tokens:
  "tokens c_header =
    [''#'', ''ifndef'', ''['', ''HEADER_GUARD_NAME'', '']'', ''_H'',
     ''#'', ''define'', ''['', ''HEADER_GUARD_NAME'', '']'', ''_H'',
     ''#'', ''endif'']"
  by (simp add: tokens_def c_header_active c_tokens_def is_ident_char_def is_space_def)

lemma c_source_body: "body_tokens (tokens c_source) = [''return'', ''0'', '';'']"
  by (simp add: c_source_tokens body_tokens_def)

lemma c_header_body: "body_tokens (tokens c_header) = []"
  by (simp add: c_header_tokens body_tokens_def)

lemma c_source_identifiers:
  "identifiers c_source = [''int'', ''main'', ''int'', ''argc'', ''char'', ''argv'', ''return'', ''0'']"
  by (simp add: identifiers_def c_source_tokens is_ident_char_def)

lemma c_header_identifiers:
  "identifiers c_header = [''ifndef'', ''HEADER_GUARD_NAME'', ''_H'', ''define'', ''HEADER_GUARD_NAME'', ''_H'', ''endif'']"
  by (simp add: identifiers_def c_header_tokens is_ident_char_def)

lemma c_source_directives:
  "directives c_source =
    [(838, Text ''int main(int argc, char* argv[]) {''), (869, Text ''    return 0;''), (870, Text ''}'')]"
  by (simp add: directives_def c_source_active directive_of_def c_tokens_def is_ident_char_def
      is_space_def)

text \<open>
  In the header the token after \<^verbatim>\<open>#ifndef\<close> and after \<^verbatim>\<open>#define\<close> is the opening bracket of
  the placeholder \<^verbatim>\<open>[HEADER_GUARD_NAME]_H\<close>, which is not an identifier.
\<close>

lemma c_header_directives:
  "directives c_header = [(24, Ifndef ''[''), (25, Define ''[''), (988, Endif)]"
  by (simp add: directives_def c_header_active directive_of_def c_tokens_def is_ident_char_def
      is_space_def operand_def)




text \<open>
  Removing comments line by line is what a C translator does on these files: no line is
  joined with its successor, and what is left in front of the comments has no slash (so no
  block comment), no quote (so no string literal or character constant in which a
  \<^verbatim>\<open>//\<close> could hide), no backslash, and no question mark or percent sign (so no trigraph
  and no digraph, which the definitions here do not read).
\<close>

lemma no_spliced_lines: "list_all (\<lambda>(path, f). spliced f = []) repository"
  by (simp add: repository_def c_source_spliced c_header_spliced)

lemma active_text_plain:
  "list_all
     (\<lambda>(path, f). list_all (\<lambda>(n, l). list_all (\<lambda>c. c \<notin> set [CHR ''/'', CHR 0x22, CHR 0x27, CHR 0x5C, CHR ''?'', CHR ''%'']) l)
        (active_lines f))
     repository"
  by (simp add: repository_def c_source_active c_header_active)


section \<open>Include guards\<close>

text \<open>
  A file made of an \<^verbatim>\<open>#ifndef\<close> and a \<^verbatim>\<open>#define\<close> of the same identifier, some text and the
  closing \<^verbatim>\<open>#endif\<close> passes its text on when the identifier is not yet defined, and defines
  it; read again, it changes nothing. With a name that is not an identifier the file is
  rejected at its first line.
\<close>

lemma pp_lines_text:
  "pp_lines (map (\<lambda>(n, t). (n, Text t)) ts @ ds) conds s =
    pp_lines ds conds (if active conds then s\<lparr>emitted := emitted s @ map snd ts\<rparr> else s)"
proof (induction ts arbitrary: s)
  case Nil
  show ?case by simp
next
  case (Cons x ts)
  obtain n t where x: "x = (n, t)" by (cases x)
  show ?case by (simp add: x Cons.IH)
qed

lemma guarded_file:
  "is_identifier g \<Longrightarrow> g \<noteq> ''defined'' \<Longrightarrow>
   pp_lines ((a, Ifndef g) # (b, Define g) # map (\<lambda>(n, t). (n, Text t)) ts @ [(c, Endif)]) [] s =
    Inr (if g \<in> macros s then s
         else s\<lparr>macros := insert g (macros s), emitted := emitted s @ map snd ts\<rparr>)"
  by (simp add: pp_lines_text active_def)

lemma guarded_file_again:
  "is_identifier g \<Longrightarrow> g \<noteq> ''defined'' \<Longrightarrow>
   pp_lines ((a, Ifndef g) # (b, Define g) # map (\<lambda>(n, t). (n, Text t)) ts @ [(c, Endif)]) []
     (s\<lparr>macros := insert g (macros s), emitted := emitted s @ map snd ts\<rparr>) =
    Inr (s\<lparr>macros := insert g (macros s), emitted := emitted s @ map snd ts\<rparr>)"
  by (simp add: pp_lines_text active_def)

lemma misnamed_guard_rejected:
  "\<not> is_identifier g \<Longrightarrow> pp_lines ((a, Ifndef g) # ds) [] s = Inl (Bad_macro_name a)"
  by (simp add: active_def)


section \<open>The claims\<close>

text \<open>
  C1 (as stated, refuted): the claim that the files define no executable behaviour and
  consist of comments only fails at line 838 of the C template, where the definition of
  \<open>main\<close> starts outside any comment.
\<close>

theorem source_not_only_comments:
  "active_lines c_source \<noteq> []
   \<and> (838, ''int main(int argc, char* argv[]) {'') \<in> set (active_lines c_source)"
  by (simp add: c_source_active)

text \<open>
  C1 (amended): apart from six lines, every line of the two files is blank or a comment.
  The six lines are the definition of \<open>main\<close> in the C template (lines 838, 869 and 870),
  whose body is the single statement \<^verbatim>\<open>return 0;\<close>, and the include guard of the header
  (lines 24, 25 and 988).
\<close>

theorem active_text_of_repository:
  "map (\<lambda>(path, f). active_lines f) repository =
    [[(838, ''int main(int argc, char* argv[]) {''), (869, ''    return 0;''), (870, ''}'')],
     [(24, ''#ifndef [HEADER_GUARD_NAME]_H''), (25, ''#define [HEADER_GUARD_NAME]_H''), (988, ''#endif '')]]"
  by (simp add: repository_def c_source_active c_header_active)

text \<open>
  C2: for every argument count, argument vector and process state, \<open>main\<close> returns the
  exit code 0, and no input makes it return anything else; it writes nothing to the error
  stream.
\<close>

theorem main_exit_code:
  "sint (fst (main argc argv w)) = 0
   \<and> \<not> (\<exists>c v s. sint (fst (main c v s)) \<noteq> 0)
   \<and> stderr_bytes (snd (main argc argv w)) = stderr_bytes w"
  by (simp add: main_def)

text \<open>
  C3: in each of the two files the lines that end a block are, in file order, the markers
  of METADATA, SETUP, BODY and CLOSING, and no other line starts with \<^verbatim>\<open>// END\<close>; their
  line numbers increase.
\<close>

theorem block_markers_in_order:
  "map (\<lambda>(path, f). end_markers f) repository =
    [[(138, ''// END METADATA''), (414, ''// END SETUP''), (750, ''// END BODY''), (1192, ''// END CLOSING'')],
     [(161, ''// END METADATA''), (437, ''// END SETUP''), (627, ''// END BODY''), (985, ''// END CLOSING'')]]
   \<and> list_all (\<lambda>(path, f). sorted_wrt (<) (map fst (end_markers f))) repository"
  by (simp add: repository_def c_source_end_markers c_header_end_markers)

text \<open>
  C4 (as stated, refuted): the claim that no file contains executing logic outside
  comments fails in the C template, where the body of \<open>main\<close> holds a statement.
\<close>

theorem statement_outside_comments:
  "body_tokens (tokens c_source) \<noteq> [] \<and> ''return'' \<in> set (body_tokens (tokens c_source))"
  by (simp add: c_source_body)

text \<open>
  C4 (amended): neither file has a \<^verbatim>\<open>struct\<close>, \<^verbatim>\<open>enum\<close>, \<^verbatim>\<open>union\<close> or \<^verbatim>\<open>typedef\<close> outside a
  comment, and the only statement outside a comment is the \<^verbatim>\<open>return 0;\<close> of \<open>main\<close> in the C
  template: outside comments the C template is, token for token, the definition of \<open>main\<close>
  with that one statement between its only pair of braces, and the header is its three
  guard directives.
\<close>

theorem no_types_and_one_statement:
  "list_all (\<lambda>(path, f). list_all (\<lambda>t. t \<notin> set type_keywords) (tokens f)) repository
   \<and> map (\<lambda>(path, f). tokens f) repository =
      [[''int'', ''main'', ''('', ''int'', ''argc'', '','', ''char'', ''*'', ''argv'', ''['', '']'', '')'', ''{'',
        ''return'', ''0'', '';'',
        ''}''],
       [''#'', ''ifndef'', ''['', ''HEADER_GUARD_NAME'', '']'', ''_H'',
        ''#'', ''define'', ''['', ''HEADER_GUARD_NAME'', '']'', ''_H'',
        ''#'', ''endif'']]
   \<and> map (\<lambda>(path, f). length (filter (\<lambda>t. t = ''{'') (tokens f))) repository = [1, 0]
   \<and> map (\<lambda>(path, f). body_tokens (tokens f)) repository = [[''return'', ''0'', '';''], []]"
proof (intro conjI)
  show "list_all (\<lambda>(path, f). list_all (\<lambda>t. t \<notin> set type_keywords) (tokens f)) repository"
    by (simp add: repository_def c_source_tokens c_header_tokens type_keywords_def)
  show "map (\<lambda>(path, f). tokens f) repository =
      [[''int'', ''main'', ''('', ''int'', ''argc'', '','', ''char'', ''*'', ''argv'', ''['', '']'', '')'', ''{'',
        ''return'', ''0'', '';'',
        ''}''],
       [''#'', ''ifndef'', ''['', ''HEADER_GUARD_NAME'', '']'', ''_H'',
        ''#'', ''define'', ''['', ''HEADER_GUARD_NAME'', '']'', ''_H'',
        ''#'', ''endif'']]"
    by (simp add: repository_def c_source_tokens c_header_tokens)
  show "map (\<lambda>(path, f). length (filter (\<lambda>t. t = ''{'') (tokens f))) repository = [1, 0]"
    by (simp add: repository_def c_source_tokens c_header_tokens)
  show "map (\<lambda>(path, f). body_tokens (tokens f)) repository = [[''return'', ''0'', '';''], []]"
    by (simp add: repository_def c_source_body c_header_body)
qed

text \<open>
  C5: the repository is two files, one with the extension \<^verbatim>\<open>c\<close> and one with the extension
  \<^verbatim>\<open>h\<close>; neither has an \<^verbatim>\<open>#include\<close> directive outside a comment, and outside comments the
  two files have no word in common.
\<close>

theorem files_independent:
  "map (\<lambda>(path, f). extension path) repository = [''c'', ''h'']
   \<and> list_all (\<lambda>(path, f). active_includes f = []) repository
   \<and> set (identifiers c_source) \<inter> set (identifiers c_header) = {}"
  by (simp add: repository_def extension_def active_includes_def is_include_def
      c_source_directives c_header_directives c_source_identifiers c_header_identifiers)

text \<open>
  C6: outside comments the C template is, token for token, the definition of \<open>main\<close>, and
  the header its three guard directives: no file declares a file-level or global variable,
  with \<^verbatim>\<open>static\<close>, with \<^verbatim>\<open>extern\<close> or without, and \<open>main\<close> is the only function. The body
  of \<open>main\<close> has no parenthesis, so it calls nothing: it starts no thread and waits for
  none. \<open>main\<close> returns the process state it was given, with the number of threads it
  started with, and its exit code does not depend on the file-level variables.
\<close>

theorem no_shared_state:
  "list_all (\<lambda>(path, f). list_all (\<lambda>t. t \<notin> set storage_keywords) (tokens f)) repository
   \<and> map (\<lambda>(path, f). tokens f) repository =
      [[''int'', ''main'', ''('', ''int'', ''argc'', '','', ''char'', ''*'', ''argv'', ''['', '']'', '')'', ''{'',
        ''return'', ''0'', '';'',
        ''}''],
       [''#'', ''ifndef'', ''['', ''HEADER_GUARD_NAME'', '']'', ''_H'',
        ''#'', ''define'', ''['', ''HEADER_GUARD_NAME'', '']'', ''_H'',
        ''#'', ''endif'']]
   \<and> map (\<lambda>(path, f). length (filter (\<lambda>t. t = ''{'') (tokens f))) repository = [1, 0]
   \<and> list_all (\<lambda>t. t \<noteq> ''('') (body_tokens (tokens c_source))
   \<and> snd (main argc argv w) = w
   \<and> threads (snd (main argc argv w)) = threads w
   \<and> fst (main argc argv (w\<lparr>globals := g\<rparr>)) = fst (main argc argv w)"
proof (intro conjI)
  show "list_all (\<lambda>(path, f). list_all (\<lambda>t. t \<notin> set storage_keywords) (tokens f)) repository"
    by (simp add: repository_def c_source_tokens c_header_tokens storage_keywords_def)
  show "map (\<lambda>(path, f). tokens f) repository =
      [[''int'', ''main'', ''('', ''int'', ''argc'', '','', ''char'', ''*'', ''argv'', ''['', '']'', '')'', ''{'',
        ''return'', ''0'', '';'',
        ''}''],
       [''#'', ''ifndef'', ''['', ''HEADER_GUARD_NAME'', '']'', ''_H'',
        ''#'', ''define'', ''['', ''HEADER_GUARD_NAME'', '']'', ''_H'',
        ''#'', ''endif'']]"
    by (simp add: repository_def c_source_tokens c_header_tokens)
  show "map (\<lambda>(path, f). length (filter (\<lambda>t. t = ''{'') (tokens f))) repository = [1, 0]"
    by (simp add: repository_def c_source_tokens c_header_tokens)
  show "list_all (\<lambda>t. t \<noteq> ''('') (body_tokens (tokens c_source))"
    by (simp add: c_source_body)
  show "snd (main argc argv w) = w"
    by (simp add: main_def)
  show "threads (snd (main argc argv w)) = threads w"
    by (simp add: main_def)
  show "fst (main argc argv (w\<lparr>globals := g\<rparr>)) = fst (main argc argv w)"
    by (simp add: main_def)
qed

text \<open>
  C7: the dividers of the SETUP block are, in file order, Includes, Defines, Static
  Variables, Types, Function Prototypes and File-Level State in the C template, and
  Includes, Defines, Type Definitions, Function Prototypes and Extern Declarations in the
  header: Includes comes before the constants, these before the types, and these before
  the function prototypes.
\<close>

theorem setup_dividers_in_order:
  "setup_sections c_source =
    [(165, ''// Includes''), (200, ''// Defines (Constants)''), (231, ''// Static Variables''),
     (264, ''// Types''), (337, ''// Function Prototypes''), (370, ''// File-Level State (Rails Pattern)'')]
   \<and> setup_sections c_header =
    [(186, ''// Includes''), (220, ''// Defines''), (246, ''// Type Definitions''),
     (335, ''// Function Prototypes''), (394, ''// Extern Declarations'')]"
  by (simp add: setup_sections_def block_end_def between_def
      c_source_end_markers c_header_end_markers c_source_section_titles c_header_section_titles)

text \<open>
  C8: two runs of \<open>main\<close> return the same exit code whatever their arguments and process
  states; from the same process state they end in the same state, which is the state they
  started from, so nothing is written to either output stream. The body of \<open>main\<close> mentions
  neither \<^verbatim>\<open>argc\<close> nor \<^verbatim>\<open>argv\<close>.
\<close>

theorem main_noninterference:
  "fst (main argc1 argv1 w1) = fst (main argc2 argv2 w2)
   \<and> snd (main argc1 argv1 w) = snd (main argc2 argv2 w)
   \<and> stdout_bytes (snd (main argc1 argv1 w)) = stdout_bytes w
   \<and> stderr_bytes (snd (main argc1 argv1 w)) = stderr_bytes w
   \<and> ''argc'' \<notin> set (body_tokens (tokens c_source))
   \<and> ''argv'' \<notin> set (body_tokens (tokens c_source))"
  by (simp add: main_def c_source_body)

text \<open>
  C9: the body of \<open>main\<close> is the one statement \<^verbatim>\<open>return 0;\<close>: it has no loop keyword, no
  parenthesis (so no call) and no mention of \<open>main\<close> (so no recursion); and \<open>main\<close> returns
  a result for every argument count, argument vector and process state.
\<close>

theorem main_terminates:
  "body_tokens (tokens c_source) = [''return'', ''0'', '';'']
   \<and> list_all (\<lambda>t. t \<notin> set loop_keywords \<and> t \<noteq> ''('' \<and> t \<noteq> ''main'') (body_tokens (tokens c_source))
   \<and> (\<exists>r. main argc argv w = (r, w))"
  by (simp add: c_source_body loop_keywords_def main_def)



end
